theory Spec2Isabelle
  imports Complex_Main
begin

section \<open>The Ethereum client of the validator node\<close>

text \<open>
  A shallow embedding of \<^verbatim>\<open>pantos/validatornode/blockchains/ethereum.py\<close>.
  Exceptions are values of the type \<open>error\<close>, a function that may raise returns
  \<open>error + 'a\<close> with \<open>Inl\<close> for the exception. Python's \<^verbatim>\<open>str\<close> is \<open>string\<close>, one
  \<open>char\<close> for each character of the Python string, and Python's \<^verbatim>\<open>int\<close> is \<open>int\<close>.
\<close>

subsection \<open>Transaction identifiers\<close>

text \<open>
  \<^verbatim>\<open>_TRANSACTION_ID_PATTERN = re.compile(r'^0x[a-fA-F0-9]{64}')\<close>

  The pattern has no alternation and no variable repetition: it is a sequence of 66
  items, each matching exactly one character, after the anchor \<^verbatim>\<open>^\<close> that holds at the
  start of the text. An item is a literal character or a character class given by its
  ranges.
\<close>

datatype re_item = Literal char | CharClass "(char \<times> char) list"

fun in_range :: "char \<Rightarrow> char \<times> char \<Rightarrow> bool" where
  "in_range c (lo, hi) = (of_char lo \<le> (of_char c :: nat) \<and> (of_char c :: nat) \<le> of_char hi)"

fun item_matches :: "re_item \<Rightarrow> char \<Rightarrow> bool" where
  "item_matches (Literal l) c = (c = l)"
| "item_matches (CharClass rs) c = list_ex (in_range c) rs"

text \<open>
  \<^verbatim>\<open>re.match\<close> matches the items against the beginning of the text and says nothing
  of what follows; \<^verbatim>\<open>re.fullmatch\<close> succeeds only when the items consume the whole
  text.
\<close>

fun re_match :: "re_item list \<Rightarrow> string \<Rightarrow> bool" where
  "re_match [] s = True"
| "re_match (p # ps) [] = False"
| "re_match (p # ps) (c # cs) = (item_matches p c \<and> re_match ps cs)"

fun re_fullmatch :: "re_item list \<Rightarrow> string \<Rightarrow> bool" where
  "re_fullmatch [] s = (s = [])"
| "re_fullmatch (p # ps) [] = False"
| "re_fullmatch (p # ps) (c # cs) = (item_matches p c \<and> re_fullmatch ps cs)"

definition hex_class :: re_item where
  "hex_class = CharClass [(CHR ''a'', CHR ''f''), (CHR ''A'', CHR ''F''), (CHR ''0'', CHR ''9'')]"

definition TRANSACTION_ID_PATTERN :: "re_item list" where
  "TRANSACTION_ID_PATTERN = [Literal CHR ''0'', Literal CHR ''x''] @ replicate 64 hex_class"

text \<open>
  \<^verbatim>\<open>
  def is_valid_transaction_id(self, transaction_id: str) -> bool:
      return (re.fullmatch(_TRANSACTION_ID_PATTERN, transaction_id)
              is not None)
  \<close>
\<close>

definition is_valid_transaction_id :: "string \<Rightarrow> bool" where
  "is_valid_transaction_id transaction_id = re_fullmatch TRANSACTION_ID_PATTERN transaction_id"

definition is_hex_digit :: "char \<Rightarrow> bool" where
  "is_hex_digit c = (c \<in> set ''0123456789abcdefABCDEF'')"

subsection \<open>Entities, requests and exceptions\<close>

text \<open>
  \<^verbatim>\<open>Blockchain\<close> is an enumeration declared outside this file. A member is identified
  by its value; which values are members, and the value of \<^verbatim>\<open>Blockchain.ETHEREUM\<close>, are
  parameters of the model (fields of \<open>env\<close> below).
\<close>

datatype blockchain = Blockchain (blockchain_value: int)

type_synonym bytes = "nat list"

text \<open>
  \<^verbatim>\<open>CrossChainTransfer\<close> is declared in \<^verbatim>\<open>entities.py\<close>. The fields are the fourteen
  arguments of its constructor, in the order of the call in
  \<^verbatim>\<open>__create_outgoing_transfers\<close>. The attributes \<^verbatim>\<open>eventual_destination_blockchain\<close>,
  \<^verbatim>\<open>eventual_recipient_address\<close> and \<^verbatim>\<open>eventual_destination_token_address\<close> are computed
  by that class; they are functions of the transfer and parameters of the model.
\<close>

record cross_chain_transfer =
  source_blockchain :: blockchain
  destination_blockchain :: blockchain
  source_hub_address :: string
  source_transfer_id :: int
  source_transaction_id :: string
  source_block_number :: int
  source_block_hash :: string
  sender_address :: string
  recipient_address :: string
  source_token_address :: string
  destination_token_address :: string
  amount :: int
  fee :: int
  service_node_address :: string

text \<open>\<^verbatim>\<open>BlockchainClient.TransferToSignerAddressRecoveryRequest\<close>\<close>

record recovery_request =
  rr_source_blockchain :: blockchain
  rr_source_transaction_id :: string
  rr_source_transfer_id :: int
  rr_sender_address :: string
  rr_recipient_address :: string
  rr_source_token_address :: string
  rr_destination_token_address :: string
  rr_amount :: int
  rr_validator_nonce :: int
  rr_signature :: bytes

text \<open>\<^verbatim>\<open>BlockchainClient.TransferToSubmissionStartRequest\<close> and its response\<close>

record submission_start_request =
  internal_transfer_id :: int
  incoming_transfer :: cross_chain_transfer
  validator_nonce :: int

record submission_start_response =
  internal_transaction_id :: string
  response_hub_address :: string
  response_forwarder_address :: string

text \<open>The keyword arguments an error is created with.\<close>

datatype error_param =
    IntParam int
  | StrParam string
  | BoolParam bool
  | BlockchainParam blockchain
  | RecoveryRequestParam recovery_request
  | SubmissionRequestParam submission_start_request

type_synonym kwargs = "(string \<times> error_param) list"

text \<open>
  The exceptions. \<open>ContractLogicError\<close> carries what \<^verbatim>\<open>str(error)\<close> returns. The last
  three are the errors the client itself creates, with their keyword arguments;
  \<open>OtherException\<close> stands for every exception class the file does not name.
\<close>

datatype error =
    ResultsNotMatchingError
  | NoUsableNodeError
  | TransactionNonceTooLowError
  | TransactionUnderpricedError
  | ContractLogicError string
  | AssertionError
  | KeyError string
  | ValueError
  | OtherException string
  | EthereumClientError string kwargs
  | NonMatchingForwarderError kwargs
  | SourceTransferIdAlreadyUsedError kwargs

text \<open>
  Modelled from the spec: \<^verbatim>\<open>_create_error\<close>, \<^verbatim>\<open>_create_non_matching_forwarder_error\<close> and
  \<^verbatim>\<open>_create_source_transfer_id_already_used_error\<close> of \<^verbatim>\<open>BlockchainClient\<close>
  (\<^verbatim>\<open>blockchains/base.py\<close>). The first makes the single domain error carrying the
  description of the operation and its parameters; the other two make the typed
  errors carrying the identifiers of the transfer. The typed errors are instances of
  the client's error class, so that they reach the caller unchanged.
\<close>

definition create_error :: "string \<Rightarrow> kwargs \<Rightarrow> error" where
  "create_error message params = EthereumClientError message params"

definition create_non_matching_forwarder_error :: "kwargs \<Rightarrow> error" where
  "create_non_matching_forwarder_error params = NonMatchingForwarderError params"

definition create_source_transfer_id_already_used_error :: "kwargs \<Rightarrow> error" where
  "create_source_transfer_id_already_used_error params = SourceTransferIdAlreadyUsedError params"

fun is_EthereumClientError :: "error \<Rightarrow> bool" where
  "is_EthereumClientError (EthereumClientError message params) = True"
| "is_EthereumClientError (NonMatchingForwarderError params) = True"
| "is_EthereumClientError (SourceTransferIdAlreadyUsedError params) = True"
| "is_EthereumClientError e = False"

text \<open>Sequencing of calls that may raise: the first exception ends the computation.\<close>

fun bind_result :: "error + 'a \<Rightarrow> ('a \<Rightarrow> error + 'b) \<Rightarrow> error + 'b" where
  "bind_result (Inl e) f = Inl e"
| "bind_result (Inr v) f = f v"

definition py_assert :: "bool \<Rightarrow> error + unit" where
  "py_assert b = (if b then Inr () else Inl AssertionError)"

subsection \<open>Dynamically typed values\<close>

text \<open>
  What a contract call or an event decoder returns where the file checks the type with
  \<^verbatim>\<open>isinstance\<close>. In Python \<^verbatim>\<open>bool\<close> is a subclass of \<^verbatim>\<open>int\<close>, with \<^verbatim>\<open>True == 1\<close>.
\<close>

datatype pyval = IntV int | BoolV bool | StrV string | NoneV

fun isinstance_int :: "pyval \<Rightarrow> bool" where
  "isinstance_int (IntV i) = True"
| "isinstance_int (BoolV b) = True"
| "isinstance_int v = False"

fun isinstance_bool :: "pyval \<Rightarrow> bool" where
  "isinstance_bool (BoolV b) = True"
| "isinstance_bool v = False"

fun isinstance_str :: "pyval \<Rightarrow> bool" where
  "isinstance_str (StrV s) = True"
| "isinstance_str v = False"

fun int_of :: "pyval \<Rightarrow> int" where
  "int_of (IntV i) = i"
| "int_of (BoolV b) = (if b then 1 else 0)"
| "int_of v = 0"

fun str_of :: "pyval \<Rightarrow> string" where
  "str_of (StrV s) = s"
| "str_of v = []"

fun bool_of :: "pyval \<Rightarrow> bool" where
  "bool_of (BoolV b) = b"
| "bool_of v = False"

text \<open>
  \<^verbatim>\<open>web3.types.EventData\<close>: the event name, the decoded arguments by name, and the
  envelope. A \<^verbatim>\<open>HexBytes\<close> value of the envelope is represented by the string its
  \<^verbatim>\<open>hex()\<close> method returns.
\<close>

record event_data =
  event :: string
  args :: "string \<rightharpoonup> pyval"
  transactionHash :: string
  blockNumber :: pyval
  blockHash :: string

definition lookup :: "(string \<rightharpoonup> pyval) \<Rightarrow> string \<Rightarrow> error + pyval" where
  "lookup d k = (case d k of None \<Rightarrow> Inl (KeyError k) | Some v \<Rightarrow> Inr v)"

subsection \<open>What the client calls outside this file\<close>

datatype abi_type = abi_uint256 | abi_string | abi_address

text \<open>
  \<^verbatim>\<open>eth_account.messages.encode_defunct\<close> wraps the hash into the signable message of
  the personal-message envelope; the message is identified by the hash it wraps.
\<close>

datatype signable_message = encode_defunct bytes

datatype contract_abi = PANTOS_HUB | PANTOS_FORWARDER | PANTOS_TOKEN

type_synonym on_chain_transfer_to_request =
  "int \<times> int \<times> string \<times> string \<times> string \<times> string \<times> string \<times> int \<times> int"

text \<open>\<^verbatim>\<open>BlockchainUtilities.TransactionSubmissionStartRequest\<close>, in the order of its arguments\<close>

record transaction_submission_start_request =
  tx_contract_address :: string
  tx_versioned_contract_abi :: contract_abi
  tx_function_selector :: string
  tx_function_args :: "on_chain_transfer_to_request \<times> string list \<times> bytes list"
  tx_gas :: int
  tx_min_adaptable_fee_per_gas :: int
  tx_max_total_fee_per_gas :: "int option"
  tx_amount :: "int option"
  tx_nonce :: int
  tx_adaptable_fee_increase_factor :: real
  tx_blocks_until_resubmission :: int

record transaction_receipt =
  receipt_transactionHash :: string
  receipt_blockNumber :: int

text \<open>The configuration of the client, \<^verbatim>\<open>self._get_config()\<close>, by key\<close>

record config =
  hub :: string
  forwarder :: string
  pan_token :: string
  outgoing_transfers_number_blocks :: int
  min_adaptable_fee_per_gas :: int
  max_total_fee_per_gas :: "int option"
  adaptable_fee_increase_factor :: real
  blocks_until_resubmission :: int

text \<open>
  Everything the file calls and does not define. A call on the node connections that
  ends with \<^verbatim>\<open>get()\<close> is given by its outcome: the result the endpoints agree on,
  \<open>ResultsNotMatchingError\<close> when they disagree, or the exception of the call. The two
  calls reduced by minimum or maximum are given by the response of each endpoint.
  The contract wrappers are made without a call to a node; making them is not a step
  that can fail in the model. Logging is left out.
\<close>

record env =
  blockchain_members :: "blockchain list"
  ETHEREUM :: blockchain
  blockchain_name :: string
  config :: config
  private_key :: string
  get_address :: "string \<Rightarrow> string"
  eventual_destination_blockchain :: "cross_chain_transfer \<Rightarrow> blockchain"
  eventual_recipient_address :: "cross_chain_transfer \<Rightarrow> string"
  eventual_destination_token_address :: "cross_chain_transfer \<Rightarrow> string"
  solidity_keccak :: "abi_type list \<Rightarrow> pyval list \<Rightarrow> error + bytes"
  sign_message :: "signable_message \<Rightarrow> string \<Rightarrow> bytes"
  recover_message :: "signable_message \<Rightarrow> bytes \<Rightarrow> error + string"
  create_node_connections :: "error + unit"
  get_block_number :: "(error + int) list"
  get_transaction_count :: "string \<Rightarrow> (error + int) list"
  getTokenRecord :: "string \<Rightarrow> error + pyval list"
  isValidValidatorNodeNonce :: "int \<Rightarrow> error + bool"
  getExternalTokenRecord :: "string \<Rightarrow> int \<Rightarrow> error + pyval list"
  hub_contract_address_get :: "error + string"
  get_logs :: "int \<Rightarrow> int \<Rightarrow> error + event_data list"
  get_transaction_receipt :: "string \<Rightarrow> error + transaction_receipt"
  process_receipt :: "string \<Rightarrow> transaction_receipt \<Rightarrow> error + event_data list"
  decimals :: "string \<Rightarrow> error + pyval"
  getValidatorNodes :: "error + string list"
  verifyTransferTo ::
    "on_chain_transfer_to_request \<Rightarrow> string list \<Rightarrow> bytes list \<Rightarrow> error + unit"
  start_transaction_submission :: "transaction_submission_start_request \<Rightarrow> error + string"

text \<open>
  Modelled from the spec: the reductions of \<^verbatim>\<open>NodeConnections\<close> (package
  \<^verbatim>\<open>pantos.common\<close>). Minimum and maximum pick the least and the greatest of the
  responses of the endpoints that succeeded; when every endpoint fails the call fails.
\<close>

fun successful :: "(error + 'a) list \<Rightarrow> 'a list" where
  "successful [] = []"
| "successful (Inl e # rs) = successful rs"
| "successful (Inr v # rs) = v # successful rs"

definition get_minimum_result :: "(error + int) list \<Rightarrow> error + int" where
  "get_minimum_result rs =
     (case successful rs of [] \<Rightarrow> Inl NoUsableNodeError | v # vs \<Rightarrow> Inr (fold min vs v))"

definition get_maximum_result :: "(error + int) list \<Rightarrow> error + int" where
  "get_maximum_result rs =
     (case successful rs of [] \<Rightarrow> Inl NoUsableNodeError | v # vs \<Rightarrow> Inr (fold max vs v))"

text \<open>
  Modelled from the spec: the nonce store of \<^verbatim>\<open>database/access.py\<close>, keyed by the
  internal transfer id. \<^verbatim>\<open>update_transfer_nonce\<close> persists the transaction count as the
  nonce of the transfer if none is stored for it, and keeps the stored one otherwise;
  \<^verbatim>\<open>reset_transfer_nonce\<close> clears it.
\<close>

type_synonym nonce_store = "int \<rightharpoonup> int"

definition update_transfer_nonce :: "nonce_store \<Rightarrow> int \<Rightarrow> blockchain \<Rightarrow> int \<Rightarrow> nonce_store" where
  "update_transfer_nonce db tid chain transaction_count =
     (case db tid of None \<Rightarrow> db(tid \<mapsto> transaction_count) | Some n \<Rightarrow> db)"

definition read_transfer_nonce :: "nonce_store \<Rightarrow> int \<Rightarrow> int option" where
  "read_transfer_nonce db tid = db tid"

definition reset_transfer_nonce :: "nonce_store \<Rightarrow> int \<Rightarrow> nonce_store" where
  "reset_transfer_nonce db tid = db(tid := None)"

text \<open>
  Python's \<^verbatim>\<open>range(start, stop, step)\<close> as a list; a step of zero raises
  \<^verbatim>\<open>ValueError\<close>.
\<close>

function range_up :: "int \<Rightarrow> int \<Rightarrow> int \<Rightarrow> int list" where
  "range_up start stop step =
     (if 0 < step \<and> start < stop then start # range_up (start + step) stop step else [])"
  by pat_completeness auto
termination
  by (relation "measure (\<lambda>(start, stop, step). nat (stop - start))") auto

function range_down :: "int \<Rightarrow> int \<Rightarrow> int \<Rightarrow> int list" where
  "range_down start stop step =
     (if step < 0 \<and> stop < start then start # range_down (start + step) stop step else [])"
  by pat_completeness auto
termination
  by (relation "measure (\<lambda>(start, stop, step). nat (start - stop))") auto

definition py_range :: "int \<Rightarrow> int \<Rightarrow> int \<Rightarrow> error + int list" where
  "py_range start stop step =
     (if step = 0 then Inl ValueError
      else if 0 < step then Inr (range_up start stop step)
      else Inr (range_down start stop step))"

text \<open>Python's \<^verbatim>\<open>needle in text\<close> on strings\<close>

fun is_substring :: "string \<Rightarrow> string \<Rightarrow> bool" where
  "is_substring needle [] = (needle = [])"
| "is_substring needle (c # cs) =
     (take (length needle) (c # cs) = needle \<or> is_substring needle cs)"

subsection \<open>The client\<close>

definition HUB_TRANSFER_TO_FUNCTION_SELECTOR :: string where
  "HUB_TRANSFER_TO_FUNCTION_SELECTOR = ''0x92557c8a''"

definition HUB_TRANSFER_TO_GAS :: int where
  "HUB_TRANSFER_TO_GAS = 250000"

definition NON_MATCHING_FORWARDER_ERROR :: string where
  "NON_MATCHING_FORWARDER_ERROR = ''PantosHub: Forwarder of Hub and transferred token must match''"

definition SOURCE_TRANSFER_ID_ALREADY_USED_ERROR :: string where
  "SOURCE_TRANSFER_ID_ALREADY_USED_ERROR = ''PantosHub: source transfer ID already used''"

definition get_blockchain :: "env \<Rightarrow> blockchain" where
  "get_blockchain env = ETHEREUM env"

text \<open>
  \<^verbatim>\<open>self.__address\<close>, set by the constructor to
  \<^verbatim>\<open>self.get_utilities().get_address(self.__private_key)\<close>
\<close>

definition client_address :: "env \<Rightarrow> string" where
  "client_address env = get_address env (private_key env)"

text \<open>\<^verbatim>\<open>Blockchain(value)\<close>: the member with the value, \<^verbatim>\<open>ValueError\<close> if there is none\<close>

definition to_Blockchain :: "env \<Rightarrow> int \<Rightarrow> error + blockchain" where
  "to_Blockchain env v =
     (if Blockchain v \<in> set (blockchain_members env) then Inr (Blockchain v) else Inl ValueError)"

text \<open>
  The two handlers that end every read operation:
  \<^verbatim>\<open>
  except ResultsNotMatchingError:
      raise
  except Exception:
      raise self._create_error(message, **kwargs)
  \<close>
\<close>

definition reraise_or_wrap :: "string \<Rightarrow> kwargs \<Rightarrow> error \<Rightarrow> error" where
  "reraise_or_wrap message params e =
     (if e = ResultsNotMatchingError then e else create_error message params)"

definition try_except :: "string \<Rightarrow> kwargs \<Rightarrow> error + 'a \<Rightarrow> error + 'a" where
  "try_except message params body =
     (case body of Inl e \<Rightarrow> Inl (reraise_or_wrap message params e) | Inr v \<Rightarrow> Inr v)"

text \<open>
  Each read operation is a \<^verbatim>\<open>try\<close> statement: the definition with the suffix
  \<open>_body\<close> is the statements inside \<^verbatim>\<open>try\<close>, the operation applies the handlers.
\<close>

definition is_token_active_body :: "env \<Rightarrow> string \<Rightarrow> error + bool" where
  "is_token_active_body env token_address =
     bind_result (create_node_connections env) (\<lambda>node_connections.
     bind_result (getTokenRecord env token_address) (\<lambda>token_record.
     bind_result (py_assert (length token_record = 2)) (\<lambda>_.
     bind_result (py_assert (isinstance_bool (token_record ! 0))) (\<lambda>_.
     Inr (bool_of (token_record ! 0))))))"

definition is_token_active :: "env \<Rightarrow> string \<Rightarrow> error + bool" where
  "is_token_active env token_address =
     try_except ''unable to determine if a token is active''
       [(''token_address'', StrParam token_address)]
       (is_token_active_body env token_address)"

definition is_valid_validator_nonce_body :: "env \<Rightarrow> int \<Rightarrow> error + bool" where
  "is_valid_validator_nonce_body env nonce =
     bind_result (create_node_connections env) (\<lambda>node_connections.
     isValidValidatorNodeNonce env nonce)"

definition is_valid_validator_nonce :: "env \<Rightarrow> int \<Rightarrow> error + bool" where
  "is_valid_validator_nonce env nonce =
     try_except ''unable to determine if a validator node nonce is valid''
       [(''nonce'', IntParam nonce)]
       (is_valid_validator_nonce_body env nonce)"

definition read_external_token_address_body ::
  "env \<Rightarrow> string \<Rightarrow> blockchain \<Rightarrow> error + string option" where
  "read_external_token_address_body env token_address external_blockchain =
     bind_result (create_node_connections env) (\<lambda>node_connections.
     bind_result (getExternalTokenRecord env token_address
         (blockchain_value external_blockchain)) (\<lambda>external_token_record.
     bind_result (py_assert (length external_token_record = 2)) (\<lambda>_.
     bind_result (py_assert (isinstance_bool (external_token_record ! 0))) (\<lambda>_.
     bind_result (py_assert (isinstance_str (external_token_record ! 1))) (\<lambda>_.
     let active = bool_of (external_token_record ! 0) in
     if \<not> active then Inr None
     else Inr (Some (str_of (external_token_record ! 1))))))))"

definition read_external_token_address ::
  "env \<Rightarrow> string \<Rightarrow> blockchain \<Rightarrow> error + string option" where
  "read_external_token_address env token_address external_blockchain =
     try_except ''unable to read an external token address''
       [(''token_address'', StrParam token_address),
        (''external_blockchain'', BlockchainParam external_blockchain)]
       (read_external_token_address_body env token_address external_blockchain)"

text \<open>
  The body of the loop of \<^verbatim>\<open>__create_outgoing_transfers\<close>: the nine arguments are
  read from the event, then their types are asserted, then the envelope is read, and
  last the destination blockchain is looked up and compared with the client's own.
\<close>

definition create_outgoing_transfer ::
  "env \<Rightarrow> string \<Rightarrow> event_data \<Rightarrow> error + cross_chain_transfer" where
  "create_outgoing_transfer env hub_contract_address event_log =
     bind_result (py_assert (event event_log = ''TransferFrom'')) (\<lambda>_.
     let event_args = args event_log in
     bind_result (lookup event_args ''sourceTransferId'') (\<lambda>source_transfer_id.
     bind_result (lookup event_args ''destinationBlockchainId'') (\<lambda>destination_blockchain_id.
     bind_result (lookup event_args ''sender'') (\<lambda>sender_address.
     bind_result (lookup event_args ''recipient'') (\<lambda>recipient_address.
     bind_result (lookup event_args ''sourceToken'') (\<lambda>source_token_address.
     bind_result (lookup event_args ''destinationToken'') (\<lambda>destination_token_address.
     bind_result (lookup event_args ''amount'') (\<lambda>amount.
     bind_result (lookup event_args ''fee'') (\<lambda>fee.
     bind_result (lookup event_args ''serviceNode'') (\<lambda>service_node_address.
     bind_result (py_assert (isinstance_int source_transfer_id)) (\<lambda>_.
     bind_result (py_assert (isinstance_int destination_blockchain_id)) (\<lambda>_.
     bind_result (py_assert (isinstance_str sender_address)) (\<lambda>_.
     bind_result (py_assert (isinstance_str recipient_address)) (\<lambda>_.
     bind_result (py_assert (isinstance_str source_token_address)) (\<lambda>_.
     bind_result (py_assert (isinstance_str destination_token_address)) (\<lambda>_.
     bind_result (py_assert (isinstance_int amount)) (\<lambda>_.
     bind_result (py_assert (isinstance_int fee)) (\<lambda>_.
     bind_result (py_assert (isinstance_str service_node_address)) (\<lambda>_.
     let transaction_hash = transactionHash event_log;
         block_number = blockNumber event_log;
         block_hash = blockHash event_log in
     bind_result (py_assert (isinstance_int block_number)) (\<lambda>_.
     let source_blockchain = get_blockchain env in
     bind_result (to_Blockchain env (int_of destination_blockchain_id)) (\<lambda>destination_blockchain.
     bind_result (py_assert (source_blockchain \<noteq> destination_blockchain)) (\<lambda>_.
     Inr \<lparr>source_blockchain = source_blockchain,
          destination_blockchain = destination_blockchain,
          source_hub_address = hub_contract_address,
          source_transfer_id = int_of source_transfer_id,
          source_transaction_id = transaction_hash,
          source_block_number = int_of block_number,
          source_block_hash = block_hash,
          sender_address = str_of sender_address,
          recipient_address = str_of recipient_address,
          source_token_address = str_of source_token_address,
          destination_token_address = str_of destination_token_address,
          amount = int_of amount,
          fee = int_of fee,
          service_node_address = str_of service_node_address\<rparr>))))))))))))))))))))))"

fun create_outgoing_transfers_loop ::
  "env \<Rightarrow> string \<Rightarrow> cross_chain_transfer list \<Rightarrow> event_data list \<Rightarrow>
   error + cross_chain_transfer list" where
  "create_outgoing_transfers_loop env hub_contract_address outgoing_transfers [] =
     Inr outgoing_transfers"
| "create_outgoing_transfers_loop env hub_contract_address outgoing_transfers (event_log # rest) =
     (case create_outgoing_transfer env hub_contract_address event_log of
        Inl e \<Rightarrow> Inl e
      | Inr outgoing_transfer \<Rightarrow>
          create_outgoing_transfers_loop env hub_contract_address
            (outgoing_transfers @ [outgoing_transfer]) rest)"

definition create_outgoing_transfers ::
  "env \<Rightarrow> event_data list \<Rightarrow> string \<Rightarrow> error + cross_chain_transfer list" where
  "create_outgoing_transfers env event_logs hub_contract_address =
     create_outgoing_transfers_loop env hub_contract_address [] event_logs"

text \<open>
  The loop of \<^verbatim>\<open>read_outgoing_transfers_from_block\<close> over the upper block numbers.
  It assigns to \<^verbatim>\<open>from_block_number\<close>, so the value the variable has when the loop
  ends or raises is returned too.
  \<^verbatim>\<open>
  for to_block_number in to_block_numbers:
      assert to_block_number >= from_block_number
      event_logs += self.get_utilities().get_logs(
          event, from_block_number, to_block_number)
      from_block_number = to_block_number + 1
  \<close>
\<close>

fun read_event_logs ::
  "env \<Rightarrow> int \<Rightarrow> event_data list \<Rightarrow> int list \<Rightarrow> (error + event_data list) \<times> int" where
  "read_event_logs env from_block_number event_logs [] = (Inr event_logs, from_block_number)"
| "read_event_logs env from_block_number event_logs (to_block_number # rest) =
     (if \<not> to_block_number \<ge> from_block_number then (Inl AssertionError, from_block_number)
      else case get_logs env from_block_number to_block_number of
          Inl e \<Rightarrow> (Inl e, from_block_number)
        | Inr logs \<Rightarrow> read_event_logs env (to_block_number + 1) (event_logs @ logs) rest)"

text \<open>
  \<^verbatim>\<open>
  to_block_numbers = list(
      range(from_block_number + number_blocks, latest_block_number,
            number_blocks)) + [latest_block_number]
  \<close>
\<close>

definition to_block_numbers :: "int \<Rightarrow> int \<Rightarrow> int \<Rightarrow> error + int list" where
  "to_block_numbers from_block_number latest_block_number number_blocks =
     bind_result
       (py_range (from_block_number + number_blocks) latest_block_number number_blocks)
       (\<lambda>r. Inr (r @ [latest_block_number]))"

text \<open>
  The statements inside \<^verbatim>\<open>try\<close>, with the value of \<^verbatim>\<open>from_block_number\<close> at the end.
\<close>

definition read_outgoing_transfers_from_block_body ::
  "env \<Rightarrow> int \<Rightarrow> (error + cross_chain_transfer list \<times> int) \<times> int" where
  "read_outgoing_transfers_from_block_body env from_block_number =
     (case create_node_connections env of
        Inl e \<Rightarrow> (Inl e, from_block_number)
      | Inr node_connections \<Rightarrow>
     (case get_minimum_result (get_block_number env) of
        Inl e \<Rightarrow> (Inl e, from_block_number)
      | Inr latest_block_number \<Rightarrow>
     if from_block_number > latest_block_number
     then (Inr ([], latest_block_number), from_block_number)
     else
     let number_blocks = outgoing_transfers_number_blocks (config env) in
     (case to_block_numbers from_block_number latest_block_number number_blocks of
        Inl e \<Rightarrow> (Inl e, from_block_number)
      | Inr to_blocks \<Rightarrow>
     (case read_event_logs env from_block_number [] to_blocks of
        (Inl e, from_block_number') \<Rightarrow> (Inl e, from_block_number')
      | (Inr event_logs, from_block_number') \<Rightarrow>
     (case hub_contract_address_get env of
        Inl e \<Rightarrow> (Inl e, from_block_number')
      | Inr hub_address \<Rightarrow>
     (case create_outgoing_transfers env event_logs hub_address of
        Inl e \<Rightarrow> (Inl e, from_block_number')
      | Inr outgoing_transfers \<Rightarrow>
          (Inr (outgoing_transfers, latest_block_number), from_block_number')))))))"

definition read_outgoing_transfers_from_block ::
  "env \<Rightarrow> int \<Rightarrow> error + cross_chain_transfer list \<times> int" where
  "read_outgoing_transfers_from_block env from_block_number =
     (case read_outgoing_transfers_from_block_body env from_block_number of
        (Inl e, from_block_number') \<Rightarrow>
          Inl (reraise_or_wrap ''unable to read outgoing transfers from a starting block''
                 [(''from_block_number'', IntParam from_block_number')] e)
      | (Inr response, from_block_number') \<Rightarrow> Inr response)"

definition read_outgoing_transfers_in_transaction_body ::
  "env \<Rightarrow> string \<Rightarrow> string \<Rightarrow> error + cross_chain_transfer list" where
  "read_outgoing_transfers_in_transaction_body env transaction_id hub_address =
     bind_result (create_node_connections env) (\<lambda>node_connections.
     bind_result (get_transaction_receipt env transaction_id) (\<lambda>transaction_receipt.
     bind_result (py_assert (receipt_transactionHash transaction_receipt = transaction_id)) (\<lambda>_.
     bind_result (process_receipt env hub_address transaction_receipt) (\<lambda>event_logs.
     create_outgoing_transfers env event_logs hub_address))))"

definition read_outgoing_transfers_in_transaction ::
  "env \<Rightarrow> string \<Rightarrow> string \<Rightarrow> error + cross_chain_transfer list" where
  "read_outgoing_transfers_in_transaction env transaction_id hub_address =
     try_except ''unable to read outgoing transfers in a transaction''
       [(''transaction_id'', StrParam transaction_id), (''hub_address'', StrParam hub_address)]
       (read_outgoing_transfers_in_transaction_body env transaction_id hub_address)"

definition read_token_decimals_body :: "env \<Rightarrow> string \<Rightarrow> error + int" where
  "read_token_decimals_body env token_address =
     bind_result (create_node_connections env) (\<lambda>node_connections.
     bind_result (decimals env token_address) (\<lambda>d.
     bind_result (py_assert (isinstance_int d)) (\<lambda>_.
     Inr (int_of d))))"

definition read_token_decimals :: "env \<Rightarrow> string \<Rightarrow> error + int" where
  "read_token_decimals env token_address =
     try_except ''unable to read the decimals of a token''
       [(''token_address'', StrParam token_address)]
       (read_token_decimals_body env token_address)"

definition read_validator_node_addresses_body :: "env \<Rightarrow> error + string list" where
  "read_validator_node_addresses_body env =
     bind_result (create_node_connections env) (\<lambda>node_connections.
     bind_result (getValidatorNodes env) (\<lambda>validator_node_addresses.
     Inr validator_node_addresses))"

definition read_validator_node_addresses :: "env \<Rightarrow> error + string list" where
  "read_validator_node_addresses env =
     try_except ''unable to read the validator node addresses'' []
       (read_validator_node_addresses_body env)"

text \<open>
  \<^verbatim>\<open>
  base_message = web3.Web3.solidity_keccak([
      'uint256', 'uint256', 'string', 'uint256', 'string', 'address',
      'string', 'address', 'uint256', 'uint256', 'address', 'address',
      'address'
  ], [
      source_blockchain.value, destination_blockchain.value,
      source_transaction_id, source_transfer_id, sender_address,
      recipient_address, source_token_address, destination_token_address,
      amount, validator_nonce, hub_address, forwarder_address,
      pan_token_address
  ])
  return eth_account.messages.encode_defunct(base_message)
  \<close>
\<close>

definition create_transfer_to_message ::
  "env \<Rightarrow> blockchain \<Rightarrow> blockchain \<Rightarrow> string \<Rightarrow> int \<Rightarrow> string \<Rightarrow> string \<Rightarrow> string \<Rightarrow> string \<Rightarrow>
   int \<Rightarrow> int \<Rightarrow> string \<Rightarrow> string \<Rightarrow> string \<Rightarrow> error + signable_message" where
  "create_transfer_to_message env src_blockchain dst_blockchain src_transaction_id
     src_transfer_id sender recipient src_token dst_token amnt nonce
     hub_address forwarder_address pan_token_address =
     bind_result
       (solidity_keccak env
          [abi_uint256, abi_uint256, abi_string, abi_uint256, abi_string, abi_address,
           abi_string, abi_address, abi_uint256, abi_uint256, abi_address, abi_address,
           abi_address]
          [IntV (blockchain_value src_blockchain), IntV (blockchain_value dst_blockchain),
           StrV src_transaction_id, IntV src_transfer_id, StrV sender,
           StrV recipient, StrV src_token, StrV dst_token,
           IntV amnt, IntV nonce, StrV hub_address, StrV forwarder_address,
           StrV pan_token_address])
       (\<lambda>base_message. Inr (encode_defunct base_message))"

definition create_transfer_to_signature ::
  "env \<Rightarrow> cross_chain_transfer \<Rightarrow> int \<Rightarrow> string \<Rightarrow> string \<Rightarrow> string \<Rightarrow> error + bytes" where
  "create_transfer_to_signature env transfer nonce hub_address forwarder_address
     pan_token_address =
     bind_result
       (create_transfer_to_message env
          (source_blockchain transfer)
          (eventual_destination_blockchain env transfer)
          (source_transaction_id transfer)
          (source_transfer_id transfer)
          (sender_address transfer)
          (eventual_recipient_address env transfer)
          (source_token_address transfer)
          (eventual_destination_token_address env transfer)
          (amount transfer) nonce hub_address forwarder_address pan_token_address)
       (\<lambda>message. Inr (sign_message env message (private_key env)))"


text \<open>
  The functions below read and write the nonce store; they return it with the result.
  \<^verbatim>\<open>
  def __get_nonce(self, node_connections, internal_transfer_id):
      transaction_count = node_connections.eth.get_transaction_count(
          self.__address).get_maximum_result()
      database_access.update_transfer_nonce(internal_transfer_id,
                                            self.get_blockchain(),
                                            transaction_count)
      nonce = database_access.read_transfer_nonce(internal_transfer_id)
      assert nonce is not None
      return nonce
  \<close>
\<close>

definition get_nonce :: "env \<Rightarrow> nonce_store \<Rightarrow> int \<Rightarrow> (error + int) \<times> nonce_store" where
  "get_nonce env db tid =
     (case get_maximum_result (get_transaction_count env (client_address env)) of
        Inl e \<Rightarrow> (Inl e, db)
      | Inr transaction_count \<Rightarrow>
          (let db' = update_transfer_nonce db tid (get_blockchain env) transaction_count in
           case read_transfer_nonce db' tid of
             None \<Rightarrow> (Inl AssertionError, db')
           | Some nonce \<Rightarrow> (Inr nonce, db')))"

text \<open>
  \<^verbatim>\<open>
  try:
      return self.get_utilities().start_transaction_submission(
          request, node_connections)
  except (TransactionNonceTooLowError, TransactionUnderpricedError):
      database_access.reset_transfer_nonce(internal_transfer_id)
      raise
  \<close>
\<close>

definition transaction_submission_request ::
  "env \<Rightarrow> on_chain_transfer_to_request \<Rightarrow> bytes \<Rightarrow> int \<Rightarrow> transaction_submission_start_request" where
  "transaction_submission_request env on_chain_request signature nonce =
     \<lparr>tx_contract_address = hub (config env),
      tx_versioned_contract_abi = PANTOS_HUB,
      tx_function_selector = HUB_TRANSFER_TO_FUNCTION_SELECTOR,
      tx_function_args = (on_chain_request, [client_address env], [signature]),
      tx_gas = HUB_TRANSFER_TO_GAS,
      tx_min_adaptable_fee_per_gas = min_adaptable_fee_per_gas (config env),
      tx_max_total_fee_per_gas = max_total_fee_per_gas (config env),
      tx_amount = None,
      tx_nonce = nonce,
      tx_adaptable_fee_increase_factor = adaptable_fee_increase_factor (config env),
      tx_blocks_until_resubmission = blocks_until_resubmission (config env)\<rparr>"

definition submit_transfer_to_request ::
  "env \<Rightarrow> nonce_store \<Rightarrow> int \<Rightarrow> on_chain_transfer_to_request \<Rightarrow> bytes \<Rightarrow>
   (error + string) \<times> nonce_store" where
  "submit_transfer_to_request env db tid on_chain_request signature =
     (case get_nonce env db tid of
        (Inl e, db') \<Rightarrow> (Inl e, db')
      | (Inr nonce, db') \<Rightarrow>
          (let request = transaction_submission_request env on_chain_request signature nonce in
           case start_transaction_submission env request of
             Inr transaction_id \<Rightarrow> (Inr transaction_id, db')
           | Inl e \<Rightarrow>
               if e = TransactionNonceTooLowError \<or> e = TransactionUnderpricedError
               then (Inl e, reset_transfer_nonce db' tid)
               else (Inl e, db')))"

text \<open>
  \<^verbatim>\<open>
  try:
      hub_contract.functions.verifyTransferTo(on_chain_request,
                                              [self.__address],
                                              [signature]).call().get()
  except web3.exceptions.ContractLogicError as error:
      if _NON_MATCHING_FORWARDER_ERROR in str(error):
          raise self._create_non_matching_forwarder_error(...)
      if _SOURCE_TRANSFER_ID_ALREADY_USED_ERROR in str(error):
          raise self._create_source_transfer_id_already_used_error(...)
      raise
  \<close>
\<close>

definition verify_transfer_to_request ::
  "env \<Rightarrow> cross_chain_transfer \<Rightarrow> on_chain_transfer_to_request \<Rightarrow> bytes \<Rightarrow> error + unit" where
  "verify_transfer_to_request env transfer on_chain_request signature =
     (case verifyTransferTo env on_chain_request [client_address env] [signature] of
        Inr u \<Rightarrow> Inr ()
      | Inl (ContractLogicError reason) \<Rightarrow>
          if is_substring NON_MATCHING_FORWARDER_ERROR reason
          then Inl (create_non_matching_forwarder_error
                 [(''source_blockchain'', BlockchainParam (source_blockchain transfer)),
                  (''source_transaction_id'', StrParam (source_transaction_id transfer)),
                  (''destination_token_address'',
                     StrParam (destination_token_address transfer))])
          else if is_substring SOURCE_TRANSFER_ID_ALREADY_USED_ERROR reason
          then Inl (create_source_transfer_id_already_used_error
                 [(''source_blockchain'', BlockchainParam (source_blockchain transfer)),
                  (''source_transfer_id'', IntParam (source_transfer_id transfer)),
                  (''source_transaction_id'', StrParam (source_transaction_id transfer))])
          else Inl (ContractLogicError reason)
      | Inl e \<Rightarrow> Inl e)"

text \<open>
  The handlers that end \<^verbatim>\<open>start_transfer_to_submission\<close>:
  \<^verbatim>\<open>
  except ResultsNotMatchingError:
      raise
  except EthereumClientError:
      raise
  except Exception:
      raise self._create_error('unable to start a transferTo submission',
                               request=request)
  \<close>
\<close>

definition reraise_client_error_or_wrap :: "string \<Rightarrow> kwargs \<Rightarrow> error \<Rightarrow> error" where
  "reraise_client_error_or_wrap message params e =
     (if e = ResultsNotMatchingError then e
      else if is_EthereumClientError e then e
      else create_error message params)"

text \<open>
  \<^verbatim>\<open>
  on_chain_request: _OnChainTransferToRequest = (
      request.incoming_transfer.source_blockchain.value,
      request.incoming_transfer.source_transfer_id,
      request.incoming_transfer.source_transaction_id,
      request.incoming_transfer.sender_address,
      request.incoming_transfer.eventual_recipient_address,
      request.incoming_transfer.source_token_address,
      request.incoming_transfer.eventual_destination_token_address,
      request.incoming_transfer.amount, request.validator_nonce)
  \<close>
\<close>

definition on_chain_transfer_to_request_of ::
  "env \<Rightarrow> submission_start_request \<Rightarrow> on_chain_transfer_to_request" where
  "on_chain_transfer_to_request_of env request =
     (let transfer = incoming_transfer request in
      (blockchain_value (source_blockchain transfer),
       source_transfer_id transfer,
       source_transaction_id transfer,
       sender_address transfer,
       eventual_recipient_address env transfer,
       source_token_address transfer,
       eventual_destination_token_address env transfer,
       amount transfer, validator_nonce request))"

definition start_transfer_to_submission_body ::
  "env \<Rightarrow> nonce_store \<Rightarrow> submission_start_request \<Rightarrow>
   (error + submission_start_response) \<times> nonce_store" where
  "start_transfer_to_submission_body env db request =
     (case create_node_connections env of
        Inl e \<Rightarrow> (Inl e, db)
      | Inr node_connections \<Rightarrow>
     (let hub_address = hub (config env);
          forwarder_address = forwarder (config env);
          pan_token_address = pan_token (config env);
          transfer = incoming_transfer request in
      case create_transfer_to_signature env transfer (validator_nonce request)
             hub_address forwarder_address pan_token_address of
        Inl e \<Rightarrow> (Inl e, db)
      | Inr signature \<Rightarrow>
     (let on_chain_request = on_chain_transfer_to_request_of env request in
      case verify_transfer_to_request env transfer on_chain_request signature of
        Inl e \<Rightarrow> (Inl e, db)
      | Inr u \<Rightarrow>
     (case submit_transfer_to_request env db (internal_transfer_id request)
             on_chain_request signature of
        (Inl e, db') \<Rightarrow> (Inl e, db')
      | (Inr transaction_id, db') \<Rightarrow>
          (Inr \<lparr>internal_transaction_id = transaction_id,
                response_hub_address = hub_address,
                response_forwarder_address = forwarder_address\<rparr>, db')))))"

definition start_transfer_to_submission ::
  "env \<Rightarrow> nonce_store \<Rightarrow> submission_start_request \<Rightarrow>
   (error + submission_start_response) \<times> nonce_store" where
  "start_transfer_to_submission env db request =
     (if eventual_destination_blockchain env (incoming_transfer request) \<noteq> get_blockchain env
      then (Inl (create_error
                   (''eventual destination blockchain of incoming transfer must be '' @
                    blockchain_name env)
                   [(''request'', SubmissionRequestParam request)]), db)
      else case start_transfer_to_submission_body env db request of
          (Inl e, db') \<Rightarrow>
            (Inl (reraise_client_error_or_wrap ''unable to start a transferTo submission''
                    [(''request'', SubmissionRequestParam request)] e), db')
        | (Inr response, db') \<Rightarrow> (Inr response, db'))"

subsection \<open>The attestation message as the specification words it\<close>

text \<open>
  The content hash of a sequence of typed fields, in their order, wrapped into the
  envelope of a signable message.
\<close>

definition hashed_message :: "env \<Rightarrow> (abi_type \<times> pyval) list \<Rightarrow> error + signable_message" where
  "hashed_message env typed_fields =
     bind_result (solidity_keccak env (map fst typed_fields) (map snd typed_fields))
       (\<lambda>h. Inr (encode_defunct h))"

text \<open>
  The thirteen fields with the types of the specification: the transaction id and the
  sender, recipient, source token and destination token addresses as strings.
\<close>

definition spec_transfer_to_fields ::
  "blockchain \<Rightarrow> blockchain \<Rightarrow> string \<Rightarrow> int \<Rightarrow> string \<Rightarrow> string \<Rightarrow> string \<Rightarrow> string \<Rightarrow>
   int \<Rightarrow> int \<Rightarrow> string \<Rightarrow> string \<Rightarrow> string \<Rightarrow> (abi_type \<times> pyval) list" where
  "spec_transfer_to_fields src_blockchain dst_blockchain src_transaction_id src_transfer_id
     sender recipient src_token dst_token amnt nonce hub_address forwarder_address
     pan_token_address =
     [(abi_uint256, IntV (blockchain_value src_blockchain)),
      (abi_uint256, IntV (blockchain_value dst_blockchain)),
      (abi_string, StrV src_transaction_id),
      (abi_uint256, IntV src_transfer_id),
      (abi_string, StrV sender),
      (abi_string, StrV recipient),
      (abi_string, StrV src_token),
      (abi_string, StrV dst_token),
      (abi_uint256, IntV amnt),
      (abi_uint256, IntV nonce),
      (abi_address, StrV hub_address),
      (abi_address, StrV forwarder_address),
      (abi_address, StrV pan_token_address)]"

subsection \<open>The propagation of errors as the specification words it\<close>

text \<open>
  A node-inconsistency error propagates unchanged; any other exception is wrapped into
  the single domain error carrying the description of the operation and its parameters.
\<close>

fun spec_propagation :: "string \<Rightarrow> kwargs \<Rightarrow> error + 'a \<Rightarrow> error + 'a" where
  "spec_propagation description params (Inr v) = Inr v"
| "spec_propagation description params (Inl ResultsNotMatchingError) =
     Inl ResultsNotMatchingError"
| "spec_propagation description params (Inl e) = Inl (EthereumClientError description params)"

text \<open>
  The same, with the errors of the client's own error class propagating unchanged too.
\<close>

definition spec_propagation_keeping_client_errors ::
  "string \<Rightarrow> kwargs \<Rightarrow> error + 'a \<Rightarrow> error + 'a" where
  "spec_propagation_keeping_client_errors description params outcome =
     (case outcome of
        Inr v \<Rightarrow> Inr v
      | Inl e \<Rightarrow> if is_EthereumClientError e then Inl e
                 else spec_propagation description params (Inl e))"

subsection \<open>The block ranges of a read\<close>

text \<open>
  The pairs of block numbers the loop of \<open>read_event_logs\<close> passes to \<^verbatim>\<open>get_logs\<close>, for
  a first block and the list of upper block numbers.
\<close>

fun block_ranges :: "int \<Rightarrow> int list \<Rightarrow> (int \<times> int) list" where
  "block_ranges from_block_number [] = []"
| "block_ranges from_block_number (to_block_number # rest) =
     (from_block_number, to_block_number) # block_ranges (to_block_number + 1) rest"

definition blocks_of :: "int \<times> int \<Rightarrow> int list" where
  "blocks_of r = [fst r..snd r]"

subsection \<open>An example environment\<close>

text \<open>
  A concrete environment on which the definitions can be evaluated. Its library
  functions are stand-ins: the hash is the tagged sequence of its arguments, the
  signature is the key followed by the hash.
\<close>

fun example_encode :: "abi_type \<Rightarrow> pyval \<Rightarrow> bytes" where
  "example_encode abi_uint256 v = [0, nat (int_of v)]"
| "example_encode abi_string v = 1 # map of_char (str_of v)"
| "example_encode abi_address v = 2 # map of_char (str_of v)"

definition example_solidity_keccak :: "abi_type list \<Rightarrow> pyval list \<Rightarrow> error + bytes" where
  "example_solidity_keccak ts vs =
     (if length ts = length vs then Inr (concat (map2 example_encode ts vs)) else Inl ValueError)"

definition example_get_address :: "string \<Rightarrow> string" where
  "example_get_address k = ''0x'' @ k"

fun example_sign_message :: "signable_message \<Rightarrow> string \<Rightarrow> bytes" where
  "example_sign_message (encode_defunct h) k = length k # map of_char k @ h"

fun example_recover_message :: "signable_message \<Rightarrow> bytes \<Rightarrow> error + string" where
  "example_recover_message (encode_defunct h) [] = Inl ValueError"
| "example_recover_message (encode_defunct h) (n # r) =
     (if drop n r = h then Inr (example_get_address (map char_of (take n r))) else Inr ''0x'')"

definition example_event :: "int \<Rightarrow> int \<Rightarrow> event_data" where
  "example_event block transfer_id =
     \<lparr>event = ''TransferFrom'',
      args = [''sourceTransferId'' \<mapsto> IntV transfer_id,
              ''destinationBlockchainId'' \<mapsto> IntV 1,
              ''sender'' \<mapsto> StrV ''0xs'',
              ''recipient'' \<mapsto> StrV ''0xr'',
              ''sourceToken'' \<mapsto> StrV ''0xst'',
              ''destinationToken'' \<mapsto> StrV ''0xdt'',
              ''amount'' \<mapsto> IntV 100,
              ''fee'' \<mapsto> IntV 2,
              ''serviceNode'' \<mapsto> StrV ''0xsn''],
      transactionHash = ''0xtx'',
      blockNumber = IntV block,
      blockHash = ''0xbh''\<rparr>"

definition example_chain :: "int \<Rightarrow> event_data list" where
  "example_chain block = (if block = 2 then [example_event 2 0, example_event 2 1]
                          else if block = 4 then [example_event 4 2] else [])"

definition example_config :: config where
  "example_config =
     \<lparr>hub = ''0xhub'', forwarder = ''0xfwd'', pan_token = ''0xpan'',
      outgoing_transfers_number_blocks = 2,
      min_adaptable_fee_per_gas = 1, max_total_fee_per_gas = None,
      adaptable_fee_increase_factor = 2, blocks_until_resubmission = 10\<rparr>"

definition example_env :: env where
  "example_env =
     \<lparr>blockchain_members = [Blockchain 0, Blockchain 1],
      ETHEREUM = Blockchain 0,
      blockchain_name = ''Ethereum'',
      config = example_config,
      private_key = ''key'',
      get_address = example_get_address,
      eventual_destination_blockchain = destination_blockchain,
      eventual_recipient_address = recipient_address,
      eventual_destination_token_address = destination_token_address,
      solidity_keccak = example_solidity_keccak,
      sign_message = example_sign_message,
      recover_message = example_recover_message,
      create_node_connections = Inr (),
      get_block_number = [Inr 5, Inr 10],
      get_transaction_count = (\<lambda>a. [Inr 7, Inr 9]),
      getTokenRecord = (\<lambda>a. Inr [BoolV True, IntV 0]),
      isValidValidatorNodeNonce = (\<lambda>n. Inr True),
      getExternalTokenRecord = (\<lambda>a c. Inr [BoolV True, StrV ''0xext'']),
      hub_contract_address_get = Inr ''0xhub'',
      get_logs = (\<lambda>a b. Inr (concat (map example_chain [a..b]))),
      get_transaction_receipt =
        (\<lambda>t. Inr \<lparr>receipt_transactionHash = t, receipt_blockNumber = 2\<rparr>),
      process_receipt = (\<lambda>h r. Inr [example_event 2 0]),
      decimals = (\<lambda>a. Inr (IntV 18)),
      getValidatorNodes = Inr [''0xval''],
      verifyTransferTo = (\<lambda>r a s. Inr ()),
      start_transaction_submission = (\<lambda>r. Inr ''uuid'')\<rparr>"

definition example_transfer :: cross_chain_transfer where
  "example_transfer =
     \<lparr>source_blockchain = Blockchain 1,
      destination_blockchain = Blockchain 0,
      source_hub_address = ''0xhub1'',
      source_transfer_id = 7,
      source_transaction_id = ''0xtx'',
      source_block_number = 3,
      source_block_hash = ''0xbh'',
      sender_address = ''0xs'',
      recipient_address = ''0xr'',
      source_token_address = ''0xst'',
      destination_token_address = ''0xdt'',
      amount = 100,
      fee = 2,
      service_node_address = ''0xsn''\<rparr>"

definition example_request :: submission_start_request where
  "example_request =
     \<lparr>internal_transfer_id = 1, incoming_transfer = example_transfer, validator_nonce = 5\<rparr>"

section \<open>Properties\<close>

subsection \<open>Transaction identifiers\<close>

lemma item_matches_hex_class: "item_matches hex_class c = is_hex_digit c"
proof -
  have *: "\<And>n::nat. (97 \<le> n \<and> n \<le> 102 \<or> 65 \<le> n \<and> n \<le> 70 \<or> 48 \<le> n \<and> n \<le> 57) =
      (n \<in> {48, 49, 50, 51, 52, 53, 54, 55, 56, 57, 97, 98, 99, 100, 101, 102, 65, 66, 67, 68, 69, 70})"
    by (simp only: insert_iff empty_iff) presburger
  have "is_hex_digit c = ((of_char c :: nat) \<in> of_char ` set ''0123456789abcdefABCDEF'')"
    unfolding is_hex_digit_def by (simp only: inj_image_mem_iff [OF inj_of_char])
  also have "of_char ` set ''0123456789abcdefABCDEF'' =
      {48, 49, 50, 51, 52, 53, 54, 55, 56, 57, 97, 98, 99, 100, 101, 102, 65, 66, 67, 68, 69, 70::nat}"
    by simp
  also have "(of_char c \<in> {48, 49, 50, 51, 52, 53, 54, 55, 56, 57, 97, 98, 99, 100, 101, 102, 65, 66, 67, 68, 69, 70::nat}) =
      item_matches hex_class c"
    unfolding hex_class_def using * [of "of_char c"] by simp
  finally show ?thesis by simp
qed

lemma re_fullmatch_list_all2: "re_fullmatch ps s = list_all2 item_matches ps s"
  by (induction ps s rule: re_fullmatch.induct) auto

lemma list_all2_replicate_left:
  "list_all2 P (replicate n p) xs = (length xs = n \<and> list_all (P p) xs)"
proof (induction n arbitrary: xs)
  case 0
  then show ?case by auto
next
  case (Suc n)
  then show ?case by (cases xs) auto
qed

text \<open>
  C4 (as amended). \<^verbatim>\<open>is_valid_transaction_id\<close> uses \<^verbatim>\<open>re.fullmatch\<close>: it accepts a string
  if and only if the string is exactly \<^verbatim>\<open>0x\<close> followed by 64 hexadecimal digits of
  either case, 66 characters in total. Nothing may follow them.
\<close>

theorem is_valid_transaction_id_exact:
  "is_valid_transaction_id s =
     (length s = 66 \<and> take 2 s = ''0x'' \<and> list_all is_hex_digit (drop 2 s))"
proof -
  have hex: "item_matches hex_class = is_hex_digit"
    by (rule ext) (rule item_matches_hex_class)
  show ?thesis
  proof (cases s)
    case Nil
    then show ?thesis
      by (simp add: is_valid_transaction_id_def TRANSACTION_ID_PATTERN_def)
  next
    case (Cons a t)
    show ?thesis
    proof (cases t)
      case Nil
      with Cons show ?thesis
        by (simp add: is_valid_transaction_id_def TRANSACTION_ID_PATTERN_def)
    next
      case (Cons b r)
      with \<open>s = a # t\<close> show ?thesis
        by (auto simp add: is_valid_transaction_id_def TRANSACTION_ID_PATTERN_def
            re_fullmatch_list_all2 list_all2_replicate_left hex)
    qed
  qed
qed

text \<open>
  C4 (as stated) fails: the identifier made of \<^verbatim>\<open>0x\<close> and 64 times \<^verbatim>\<open>a\<close> is accepted,
  and the same identifier followed by one more character is rejected, although its
  first 66 characters match the pattern as a prefix.
\<close>

theorem is_valid_transaction_id_trailing_rejected:
  "is_valid_transaction_id (''0x'' @ replicate 64 CHR ''a'') \<and>
   re_match TRANSACTION_ID_PATTERN (''0x'' @ replicate 64 CHR ''a'' @ ''0'') \<and>
   \<not> is_valid_transaction_id (''0x'' @ replicate 64 CHR ''a'' @ ''0'')"
  by code_simp

subsection \<open>Results of calls that may raise\<close>

lemma bind_result_Inr_iff:
  "bind_result m f = Inr y \<longleftrightarrow> (\<exists>x. m = Inr x \<and> f x = Inr y)"
  by (cases m) auto

lemma py_assert_Inr_iff: "py_assert b = Inr u \<longleftrightarrow> b"
  by (simp add: py_assert_def)

lemma try_except_Inr_iff: "try_except message params body = Inr v \<longleftrightarrow> body = Inr v"
  by (cases body) (auto simp add: try_except_def)

lemma isinstance_bool_iff: "isinstance_bool v \<longleftrightarrow> (\<exists>b. v = BoolV b)"
  by (cases v) auto

lemma isinstance_str_iff: "isinstance_str v \<longleftrightarrow> (\<exists>s. v = StrV s)"
  by (cases v) auto

lemma length_two_iff: "length xs = 2 \<longleftrightarrow> (\<exists>a b. xs = [a, b])"
proof
  assume "length xs = 2"
  then show "\<exists>a b. xs = [a, b]"
    by (cases xs; cases "tl xs") auto
qed auto

lemma example_env_nodes:
  "create_node_connections example_env = Inr ()"
  "get_block_number example_env = [Inr 5, Inr 10]"
  by (simp_all add: example_env_def)

subsection \<open>The height of the chain\<close>

text \<open>
  C3 (as stated) fails. With two endpoints answering 5 and 10, the maximum of the
  responses is 10. The read from block 11, which exceeds it, returns the height 5 and
  not 10; and the read from block 7, which does not exceed it, returns no transfers and
  the height 5 all the same. The height is the minimum of the responses.
\<close>

theorem read_from_block_uses_minimum:
  "get_maximum_result (get_block_number example_env) = Inr 10 \<and>
   (11::int) > 10 \<and>
   read_outgoing_transfers_from_block example_env 11 = Inr ([], 5) \<and>
   \<not> (7::int) > 10 \<and>
   read_outgoing_transfers_from_block example_env 7 = Inr ([], 5)"
  by (simp add: example_env_nodes get_maximum_result_def get_minimum_result_def
      read_outgoing_transfers_from_block_def read_outgoing_transfers_from_block_body_def)

text \<open>
  C3 (as amended). \<^verbatim>\<open>read_outgoing_transfers_from_block\<close> takes as the height of the
  chain the minimum of the block numbers the endpoints answer. If the given block number
  exceeds that height, it returns the empty list of transfers together with that height.
\<close>

theorem read_from_block_beyond_minimum_height:
  assumes "create_node_connections env = Inr u"
    and "get_minimum_result (get_block_number env) = Inr latest_block_number"
    and "from_block_number > latest_block_number"
  shows "read_outgoing_transfers_from_block env from_block_number =
           Inr ([], latest_block_number)"
  using assms
  by (simp add: read_outgoing_transfers_from_block_def
      read_outgoing_transfers_from_block_body_def)

theorem read_from_block_beyond_minimum_height_witness:
  "create_node_connections example_env = Inr () \<and>
   get_minimum_result (get_block_number example_env) = Inr 5 \<and> (6::int) > 5 \<and>
   read_outgoing_transfers_from_block example_env 6 = Inr ([], 5)"
proof -
  have a: "create_node_connections example_env = Inr ()"
    by (simp add: example_env_nodes)
  have b: "get_minimum_result (get_block_number example_env) = Inr 5"
    by (simp add: example_env_nodes get_minimum_result_def)
  have c: "(6::int) > 5" by simp
  from read_from_block_beyond_minimum_height [OF a b c] a b c show ?thesis by simp
qed

subsection \<open>External token addresses\<close>

lemma read_external_token_address_body_Inr_iff:
  "read_external_token_address_body env token_address external_blockchain = Inr r \<longleftrightarrow>
     create_node_connections env = Inr () \<and>
     (\<exists>b a. getExternalTokenRecord env token_address (blockchain_value external_blockchain) =
             Inr [BoolV b, StrV a] \<and> r = (if b then Some a else None))"
proof (cases "create_node_connections env")
  case (Inl e)
  then show ?thesis by (simp add: read_external_token_address_body_def)
next
  case (Inr u)
  show ?thesis
  proof (cases "getExternalTokenRecord env token_address (blockchain_value external_blockchain)")
    case (Inl e)
    with Inr show ?thesis by (simp add: read_external_token_address_body_def)
  next
    case rcd: (Inr rcd)
    show ?thesis
    proof (cases "\<exists>b a. rcd = [BoolV b, StrV a]")
      case True
      then obtain b a where "rcd = [BoolV b, StrV a]" by blast
      with Inr rcd show ?thesis
        by (auto simp add: read_external_token_address_body_def py_assert_def)
    next
      case False
      then have "\<not> (length rcd = 2 \<and> isinstance_bool (rcd ! 0) \<and> isinstance_str (rcd ! 1))"
        by (auto simp add: length_two_iff isinstance_bool_iff isinstance_str_iff)
      with Inr rcd False show ?thesis
        by (auto simp add: read_external_token_address_body_def py_assert_def)
    qed
  qed
qed

text \<open>
  C10. \<^verbatim>\<open>read_external_token_address\<close> returns \<^verbatim>\<open>None\<close> exactly when the record
  fetched from the hub contract is a pair of a flag and an address whose flag is false,
  and it returns an address exactly when the record is such a pair whose flag is true and
  whose address is the one returned.
\<close>

theorem read_external_token_address_result:
  "(read_external_token_address env token_address external_blockchain = Inr None \<longleftrightarrow>
      create_node_connections env = Inr () \<and>
      (\<exists>a. getExternalTokenRecord env token_address (blockchain_value external_blockchain) =
             Inr [BoolV False, StrV a])) \<and>
   (read_external_token_address env token_address external_blockchain = Inr (Some x) \<longleftrightarrow>
      create_node_connections env = Inr () \<and>
      getExternalTokenRecord env token_address (blockchain_value external_blockchain) =
        Inr [BoolV True, StrV x])"
  unfolding read_external_token_address_def try_except_Inr_iff
    read_external_token_address_body_Inr_iff
  by auto

subsection \<open>Mapping events to transfers\<close>

lemma create_outgoing_transfer_distinct:
  assumes "create_outgoing_transfer env hub_address event_log = Inr t"
  shows "source_blockchain t \<noteq> destination_blockchain t"
  using assms
  unfolding create_outgoing_transfer_def bind_result_Inr_iff py_assert_Inr_iff Let_def
  by auto

lemma create_outgoing_transfer_own_destination:
  assumes "args event_log ''destinationBlockchainId'' = Some v"
    and "int_of v = blockchain_value (get_blockchain env)"
  shows "\<exists>e. create_outgoing_transfer env hub_address event_log = Inl e"
proof (cases "create_outgoing_transfer env hub_address event_log")
  case (Inl e)
  then show ?thesis by blast
next
  case (Inr t)
  then have "False" using assms
    unfolding create_outgoing_transfer_def bind_result_Inr_iff py_assert_Inr_iff Let_def
    by (auto simp add: lookup_def to_Blockchain_def split: if_splits)
  then show ?thesis ..
qed

lemma create_outgoing_transfers_loop_Inr:
  assumes "create_outgoing_transfers_loop env hub_address acc event_logs = Inr ts"
  shows "\<exists>new. ts = acc @ new \<and>
           list_all2 (\<lambda>ev t. create_outgoing_transfer env hub_address ev = Inr t) event_logs new"
  using assms
proof (induction event_logs arbitrary: acc)
  case Nil
  then show ?case by simp
next
  case (Cons ev rest)
  then obtain t where t: "create_outgoing_transfer env hub_address ev = Inr t"
    and rest: "create_outgoing_transfers_loop env hub_address (acc @ [t]) rest = Inr ts"
    by (auto split: sum.splits)
  from Cons.IH [OF rest] obtain new where "ts = (acc @ [t]) @ new"
    and "list_all2 (\<lambda>ev t. create_outgoing_transfer env hub_address ev = Inr t) rest new"
    by blast
  with t show ?case by (intro exI [of _ "t # new"]) simp
qed

lemma create_outgoing_transfers_Inr:
  assumes "create_outgoing_transfers env event_logs hub_address = Inr ts"
  shows "list_all2 (\<lambda>ev t. create_outgoing_transfer env hub_address ev = Inr t) event_logs ts"
  using assms unfolding create_outgoing_transfers_def
  by (auto dest: create_outgoing_transfers_loop_Inr)

text \<open>
  C9. Every transfer that \<^verbatim>\<open>__create_outgoing_transfers\<close> returns has a source blockchain
  different from its destination blockchain. If one of the events carries as its
  destination blockchain id the id of the client's own blockchain, the mapping raises
  an error and returns no transfer at all.
\<close>

theorem outgoing_transfers_distinct_blockchains:
  "(create_outgoing_transfers env event_logs hub_address = Inr ts \<longrightarrow>
      (\<forall>t \<in> set ts. source_blockchain t \<noteq> destination_blockchain t)) \<and>
   (event_log \<in> set event_logs \<and> args event_log ''destinationBlockchainId'' = Some v \<and>
    int_of v = blockchain_value (get_blockchain env) \<longrightarrow>
      (\<exists>e. create_outgoing_transfers env event_logs hub_address = Inl e))"
proof (intro conjI impI)
  assume "create_outgoing_transfers env event_logs hub_address = Inr ts"
  then have "list_all2 (\<lambda>ev t. create_outgoing_transfer env hub_address ev = Inr t) event_logs ts"
    by (rule create_outgoing_transfers_Inr)
  then show "\<forall>t \<in> set ts. source_blockchain t \<noteq> destination_blockchain t"
    by (auto simp add: list_all2_conv_all_nth in_set_conv_nth
        dest!: create_outgoing_transfer_distinct)
next
  assume a: "event_log \<in> set event_logs \<and>
    args event_log ''destinationBlockchainId'' = Some v \<and>
    int_of v = blockchain_value (get_blockchain env)"
  show "\<exists>e. create_outgoing_transfers env event_logs hub_address = Inl e"
  proof (cases "create_outgoing_transfers env event_logs hub_address")
    case (Inl e)
    then show ?thesis by blast
  next
    case (Inr ts)
    then have "list_all2 (\<lambda>ev t. create_outgoing_transfer env hub_address ev = Inr t) event_logs ts"
      by (rule create_outgoing_transfers_Inr)
    with a obtain t where "create_outgoing_transfer env hub_address event_log = Inr t"
      by (auto simp add: list_all2_conv_all_nth in_set_conv_nth)
    moreover from a obtain e where "create_outgoing_transfer env hub_address event_log = Inl e"
      using create_outgoing_transfer_own_destination by blast
    ultimately show ?thesis by simp
  qed
qed

lemma example_event_transfer:
  "create_outgoing_transfer example_env ''0xhub'' (example_event 2 0) =
     Inr \<lparr>source_blockchain = Blockchain 0,
          destination_blockchain = Blockchain 1,
          source_hub_address = ''0xhub'',
          source_transfer_id = 0,
          source_transaction_id = ''0xtx'',
          source_block_number = 2,
          source_block_hash = ''0xbh'',
          sender_address = ''0xs'',
          recipient_address = ''0xr'',
          source_token_address = ''0xst'',
          destination_token_address = ''0xdt'',
          amount = 100,
          fee = 2,
          service_node_address = ''0xsn''\<rparr>"
  by (simp add: create_outgoing_transfer_def example_event_def example_env_def lookup_def
      py_assert_def get_blockchain_def to_Blockchain_def)

theorem outgoing_transfers_distinct_blockchains_witness:
  "(\<exists>t. create_outgoing_transfers example_env [example_event 2 0] ''0xhub'' = Inr [t] \<and>
        source_blockchain t = Blockchain 0 \<and> destination_blockchain t = Blockchain 1 \<and>
        (\<forall>t \<in> set [t]. source_blockchain t \<noteq> destination_blockchain t)) \<and>
   (example_event 2 0)\<lparr>args := [''destinationBlockchainId'' \<mapsto> IntV 0]\<rparr>
      \<in> set [example_event 2 0, (example_event 2 0)\<lparr>args := [''destinationBlockchainId'' \<mapsto> IntV 0]\<rparr>] \<and>
   int_of (IntV 0) = blockchain_value (get_blockchain example_env) \<and>
   (\<exists>e. create_outgoing_transfers example_env
          [example_event 2 0, (example_event 2 0)\<lparr>args := [''destinationBlockchainId'' \<mapsto> IntV 0]\<rparr>]
          ''0xhub'' = Inl e)"
proof -
  let ?t = "\<lparr>source_blockchain = Blockchain 0,
          destination_blockchain = Blockchain 1,
          source_hub_address = ''0xhub'',
          source_transfer_id = 0,
          source_transaction_id = ''0xtx'',
          source_block_number = 2,
          source_block_hash = ''0xbh'',
          sender_address = ''0xs'',
          recipient_address = ''0xr'',
          source_token_address = ''0xst'',
          destination_token_address = ''0xdt'',
          amount = 100,
          fee = 2,
          service_node_address = ''0xsn''\<rparr>"
  let ?bad = "(example_event 2 0)\<lparr>args := [''destinationBlockchainId'' \<mapsto> IntV 0]\<rparr>"
  have ok: "create_outgoing_transfers example_env [example_event 2 0] ''0xhub'' = Inr [?t]"
    by (simp add: create_outgoing_transfers_def example_event_transfer)
  have own: "int_of (IntV 0) = blockchain_value (get_blockchain example_env)"
    by (simp add: get_blockchain_def example_env_def)
  have bad: "?bad \<in> set [example_event 2 0, ?bad] \<and>
      args ?bad ''destinationBlockchainId'' = Some (IntV 0) \<and>
      int_of (IntV 0) = blockchain_value (get_blockchain example_env)"
    using own by simp
  from outgoing_transfers_distinct_blockchains
    [of example_env "[example_event 2 0]" "''0xhub''" "[?t]"] ok
  have first: "\<forall>t \<in> set [?t]. source_blockchain t \<noteq> destination_blockchain t"
    by blast
  from outgoing_transfers_distinct_blockchains
    [of example_env "[example_event 2 0, ?bad]" "''0xhub''" _ ?bad "IntV 0"] bad
  have second: "\<exists>e. create_outgoing_transfers example_env [example_event 2 0, ?bad] ''0xhub'' = Inl e"
    by blast
  from ok first second bad show ?thesis by simp
qed

subsection \<open>The nonce of a submission\<close>

lemma get_nonce_Inr:
  assumes "get_nonce env db tid = (Inr nonce, db')"
  shows "read_transfer_nonce db' tid = Some nonce"
  using assms
  by (auto simp add: get_nonce_def Let_def split: sum.splits option.splits)

text \<open>
  C2. Let the nonce of the transfer be resolved, leaving the store \<open>db1\<close>, and let the
  submission of the transaction be rejected with the error \<open>e\<close>. Then
  \<^verbatim>\<open>__submit_transfer_to_request\<close> raises the same error \<open>e\<close>. If \<open>e\<close> is the
  nonce-too-low or the underpriced error, the nonce stored for the internal transfer id
  has been cleared; for every other error the store is \<open>db1\<close>, which still holds the
  nonce that was used.
\<close>

theorem submit_transfer_to_request_nonce_reset:
  assumes "get_nonce env db tid = (Inr nonce, db1)"
    and "start_transaction_submission env
           (transaction_submission_request env on_chain_request signature nonce) = Inl e"
  shows "submit_transfer_to_request env db tid on_chain_request signature =
           (Inl e, if e = TransactionNonceTooLowError \<or> e = TransactionUnderpricedError
                   then reset_transfer_nonce db1 tid else db1) \<and>
         read_transfer_nonce (reset_transfer_nonce db1 tid) tid = None \<and>
         read_transfer_nonce db1 tid = Some nonce"
  using assms get_nonce_Inr [OF assms(1)]
  by (simp add: submit_transfer_to_request_def reset_transfer_nonce_def
      read_transfer_nonce_def)

lemma example_get_nonce:
  "get_nonce (example_env\<lparr>start_transaction_submission := f\<rparr>) Map.empty 1 = (Inr 9, [1 \<mapsto> 9])"
  by (simp add: get_nonce_def get_maximum_result_def example_env_def
      update_transfer_nonce_def read_transfer_nonce_def)

theorem submit_transfer_to_request_nonce_reset_witness:
  "get_nonce
     (example_env\<lparr>start_transaction_submission := (\<lambda>r. Inl TransactionUnderpricedError)\<rparr>)
     Map.empty 1 = (Inr 9, [1 \<mapsto> 9]) \<and>
   submit_transfer_to_request
     (example_env\<lparr>start_transaction_submission := (\<lambda>r. Inl TransactionUnderpricedError)\<rparr>)
     Map.empty 1 (on_chain_transfer_to_request_of example_env example_request) [] =
     (Inl TransactionUnderpricedError, Map.empty) \<and>
   submit_transfer_to_request
     (example_env\<lparr>start_transaction_submission := (\<lambda>r. Inl (OtherException ''timeout''))\<rparr>)
     Map.empty 1 (on_chain_transfer_to_request_of example_env example_request) [] =
     (Inl (OtherException ''timeout''), [1 \<mapsto> 9])"
proof -
  let ?r = "on_chain_transfer_to_request_of example_env example_request"
  let ?up = "example_env\<lparr>start_transaction_submission := (\<lambda>r. Inl TransactionUnderpricedError)\<rparr>"
  let ?other = "example_env\<lparr>start_transaction_submission := (\<lambda>r. Inl (OtherException ''timeout''))\<rparr>"
  have up: "start_transaction_submission ?up
      (transaction_submission_request ?up ?r [] 9) = Inl TransactionUnderpricedError"
    by simp
  have other: "start_transaction_submission ?other
      (transaction_submission_request ?other ?r [] 9) = Inl (OtherException ''timeout'')"
    by simp
  from submit_transfer_to_request_nonce_reset [OF example_get_nonce up]
  have 1: "submit_transfer_to_request ?up Map.empty 1 ?r [] =
      (Inl TransactionUnderpricedError, Map.empty)"
    by (auto simp add: reset_transfer_nonce_def)
  from submit_transfer_to_request_nonce_reset [OF example_get_nonce other]
  have 2: "submit_transfer_to_request ?other Map.empty 1 ?r [] =
      (Inl (OtherException ''timeout''), [1 \<mapsto> 9])"
    by auto
  from 1 2 example_get_nonce show ?thesis by simp
qed

subsection \<open>Rejections of the verification call\<close>

lemma verify_transfer_to_request_rejected:
  assumes "verifyTransferTo env on_chain_request [client_address env] [signature] =
             Inl (ContractLogicError reason)"
  shows "verify_transfer_to_request env transfer on_chain_request signature =
    Inl (if is_substring NON_MATCHING_FORWARDER_ERROR reason
         then NonMatchingForwarderError
                [(''source_blockchain'', BlockchainParam (source_blockchain transfer)),
                 (''source_transaction_id'', StrParam (source_transaction_id transfer)),
                 (''destination_token_address'', StrParam (destination_token_address transfer))]
         else if is_substring SOURCE_TRANSFER_ID_ALREADY_USED_ERROR reason
         then SourceTransferIdAlreadyUsedError
                [(''source_blockchain'', BlockchainParam (source_blockchain transfer)),
                 (''source_transfer_id'', IntParam (source_transfer_id transfer)),
                 (''source_transaction_id'', StrParam (source_transaction_id transfer))]
         else ContractLogicError reason)"
  using assms
  by (simp add: verify_transfer_to_request_def create_non_matching_forwarder_error_def
      create_source_transfer_id_already_used_error_def)

text \<open>
  C6. Let a transferTo submission reach the verification call, and let the contract
  reject the call with a reason. The cases are tried in this order. If the reason
  contains the forwarder-mismatch message, \<^verbatim>\<open>start_transfer_to_submission\<close> raises the
  \<open>NonMatchingForwarderError\<close> with the source blockchain, the source transaction id and
  the destination token address of the transfer. Otherwise, if the reason contains the
  transfer-id-already-used message, it raises the \<open>SourceTransferIdAlreadyUsedError\<close>
  with the source blockchain, the source transfer id and the source transaction id.
  Otherwise it raises the generic error of a failed submission. The nonce store is not
  changed.
\<close>

theorem verification_rejection_classified:
  assumes "eventual_destination_blockchain env (incoming_transfer request) = get_blockchain env"
    and "create_node_connections env = Inr u"
    and "create_transfer_to_signature env (incoming_transfer request) (validator_nonce request)
           (hub (config env)) (forwarder (config env)) (pan_token (config env)) = Inr signature"
    and "verifyTransferTo env (on_chain_transfer_to_request_of env request)
           [client_address env] [signature] = Inl (ContractLogicError reason)"
  shows "start_transfer_to_submission env db request =
    (Inl (if is_substring NON_MATCHING_FORWARDER_ERROR reason
          then NonMatchingForwarderError
                 [(''source_blockchain'',
                     BlockchainParam (source_blockchain (incoming_transfer request))),
                  (''source_transaction_id'',
                     StrParam (source_transaction_id (incoming_transfer request))),
                  (''destination_token_address'',
                     StrParam (destination_token_address (incoming_transfer request)))]
          else if is_substring SOURCE_TRANSFER_ID_ALREADY_USED_ERROR reason
          then SourceTransferIdAlreadyUsedError
                 [(''source_blockchain'',
                     BlockchainParam (source_blockchain (incoming_transfer request))),
                  (''source_transfer_id'',
                     IntParam (source_transfer_id (incoming_transfer request))),
                  (''source_transaction_id'',
                     StrParam (source_transaction_id (incoming_transfer request)))]
          else EthereumClientError ''unable to start a transferTo submission''
                 [(''request'', SubmissionRequestParam request)]), db)"
  using assms verify_transfer_to_request_rejected [OF assms(4), of "incoming_transfer request"]
  by (simp add: start_transfer_to_submission_def start_transfer_to_submission_body_def
      reraise_client_error_or_wrap_def create_error_def Let_def)

lemma example_signature:
  "create_transfer_to_signature (example_env\<lparr>verifyTransferTo := f\<rparr>) example_transfer 5
     ''0xhub'' ''0xfwd'' ''0xpan'' =
     Inr (3 # map of_char ''key'' @
          [0, 1, 0, 0] @ (1 # map of_char ''0xtx'') @ [0, 7] @ (1 # map of_char ''0xs'') @
          (2 # map of_char ''0xr'') @ (1 # map of_char ''0xst'') @ (2 # map of_char ''0xdt'') @
          [0, 100, 0, 5] @ (2 # map of_char ''0xhub'') @ (2 # map of_char ''0xfwd'') @
          (2 # map of_char ''0xpan''))"
  by (simp add: create_transfer_to_signature_def create_transfer_to_message_def
      example_env_def example_transfer_def example_solidity_keccak_def)

lemma example_already_used:
  "\<not> is_substring NON_MATCHING_FORWARDER_ERROR
       ''execution reverted: PantosHub: source transfer ID already used'' \<and>
   is_substring SOURCE_TRANSFER_ID_ALREADY_USED_ERROR
       ''execution reverted: PantosHub: source transfer ID already used''"
  by (simp add: NON_MATCHING_FORWARDER_ERROR_def SOURCE_TRANSFER_ID_ALREADY_USED_ERROR_def)

theorem verification_rejection_classified_witness:
  "start_transfer_to_submission
     (example_env\<lparr>verifyTransferTo := (\<lambda>r a s. Inl (ContractLogicError
        ''execution reverted: PantosHub: source transfer ID already used''))\<rparr>)
     Map.empty example_request =
   (Inl (SourceTransferIdAlreadyUsedError
      [(''source_blockchain'', BlockchainParam (Blockchain 1)),
       (''source_transfer_id'', IntParam 7),
       (''source_transaction_id'', StrParam ''0xtx'')]), Map.empty)"
proof -
  let ?reason = "''execution reverted: PantosHub: source transfer ID already used''"
  let ?env = "example_env\<lparr>verifyTransferTo := (\<lambda>r a s. Inl (ContractLogicError ?reason))\<rparr>"
  have dest: "eventual_destination_blockchain ?env (incoming_transfer example_request) =
      get_blockchain ?env"
    by (simp add: example_env_def example_request_def example_transfer_def get_blockchain_def)
  have conn: "create_node_connections ?env = Inr ()"
    by (simp add: example_env_def)
  have sig: "create_transfer_to_signature ?env (incoming_transfer example_request)
      (validator_nonce example_request) (hub (config ?env)) (forwarder (config ?env))
      (pan_token (config ?env)) =
     Inr (3 # map of_char ''key'' @
          [0, 1, 0, 0] @ (1 # map of_char ''0xtx'') @ [0, 7] @ (1 # map of_char ''0xs'') @
          (2 # map of_char ''0xr'') @ (1 # map of_char ''0xst'') @ (2 # map of_char ''0xdt'') @
          [0, 100, 0, 5] @ (2 # map of_char ''0xhub'') @ (2 # map of_char ''0xfwd'') @
          (2 # map of_char ''0xpan''))"
    using example_signature [of "\<lambda>r a s. Inl (ContractLogicError ?reason)"]
    by (simp add: example_request_def example_env_def example_config_def)
  have rej: "verifyTransferTo ?env (on_chain_transfer_to_request_of ?env example_request)
      [client_address ?env] [signature] = Inl (ContractLogicError ?reason)" for signature
    by simp
  from verification_rejection_classified [OF dest conn sig rej, of Map.empty] example_already_used
  show ?thesis
    by (simp add: example_request_def example_transfer_def)
qed

subsection \<open>The attestation message\<close>

text \<open>
  C1 (as stated) fails. With a hash that keeps the types of its arguments apart, the
  message of the client differs from the content hash of the thirteen fields typed as
  the specification declares them: the client passes the recipient address and the
  destination token address with the type \<^verbatim>\<open>address\<close>, not \<^verbatim>\<open>string\<close>.
\<close>

theorem create_transfer_to_message_not_all_strings:
  "create_transfer_to_message example_env (Blockchain 1) (Blockchain 0) ''0xtx'' 7
     ''0xs'' ''0xr'' ''0xst'' ''0xdt'' 100 5 ''0xhub'' ''0xfwd'' ''0xpan'' \<noteq>
   hashed_message example_env
     (spec_transfer_to_fields (Blockchain 1) (Blockchain 0) ''0xtx'' 7
        ''0xs'' ''0xr'' ''0xst'' ''0xdt'' 100 5 ''0xhub'' ''0xfwd'' ''0xpan'')"
  by (simp add: create_transfer_to_message_def hashed_message_def spec_transfer_to_fields_def
      example_env_def example_solidity_keccak_def)

text \<open>
  C1 (as amended). The message of a transferTo attestation is the content hash, in the
  envelope of a signable message, of these thirteen fields in this order: the source
  blockchain id, the destination blockchain id, the source transaction id, the source
  transfer id, the sender address, the recipient address, the source token address, the
  destination token address, the amount, the validator nonce, the hub address, the
  forwarder address and the address of the reference token. The ids, the amount and the
  nonce are encoded as \<^verbatim>\<open>uint256\<close>; the source transaction id, the sender address and the
  source token address as \<^verbatim>\<open>string\<close>; the recipient address, the destination token
  address and the three contract addresses as \<^verbatim>\<open>address\<close>.
\<close>

theorem create_transfer_to_message_fields:
  "create_transfer_to_message env src_blockchain dst_blockchain src_transaction_id
     src_transfer_id sender recipient src_token dst_token amnt nonce
     hub_address forwarder_address pan_token_address =
   hashed_message env
     [(abi_uint256, IntV (blockchain_value src_blockchain)),
      (abi_uint256, IntV (blockchain_value dst_blockchain)),
      (abi_string, StrV src_transaction_id),
      (abi_uint256, IntV src_transfer_id),
      (abi_string, StrV sender),
      (abi_address, StrV recipient),
      (abi_string, StrV src_token),
      (abi_address, StrV dst_token),
      (abi_uint256, IntV amnt),
      (abi_uint256, IntV nonce),
      (abi_address, StrV hub_address),
      (abi_address, StrV forwarder_address),
      (abi_address, StrV pan_token_address)]"
  by (simp add: create_transfer_to_message_def hashed_message_def)

subsection \<open>Signing and recovering\<close>




subsection \<open>Reading a block range in chunks\<close>

declare range_up.simps [simp del] range_down.simps [simp del]

lemma blocks_of_pair: "blocks_of (a, b) = [a..b]"
  by (simp add: blocks_of_def)

lemma block_ranges_range_up:
  assumes "0 < n" and "f \<le> s" and "f \<le> l"
  shows "concat (map blocks_of (block_ranges f (range_up s l n @ [l]))) = [f..l] \<and>
         (\<forall>r \<in> set (block_ranges f (range_up s l n @ [l])). fst r \<le> snd r)"
  using assms
proof (induction s l n arbitrary: f rule: range_up.induct)
  case (1 s l n)
  show ?case
  proof (cases "s < l")
    case True
    with 1 have step: "range_up s l n = s # range_up (s + n) l n"
      by (subst range_up.simps) simp
    have le: "s + 1 \<le> s + n" "s + 1 \<le> l"
      using "1.prems" True by simp_all
    have "0 < n \<and> s < l"
      using "1.prems" True by simp
    from "1.IH" [OF this \<open>0 < n\<close> le]
    have IH: "concat (map blocks_of (block_ranges (s + 1) (range_up (s + n) l n @ [l]))) =
          [s + 1..l] \<and>
         (\<forall>r \<in> set (block_ranges (s + 1) (range_up (s + n) l n @ [l])). fst r \<le> snd r)" .
    have "[f..l] = [f..s] @ [s + 1..l]"
      using "1.prems" True by (intro upto_split2) simp_all
    with IH step "1.prems" show ?thesis
      by (simp add: blocks_of_pair)
  next
    case False
    then have "range_up s l n = []"
      by (subst range_up.simps) simp
    with "1.prems" show ?thesis by (simp add: blocks_of_pair)
  qed
qed

lemma to_block_numbers_cover:
  assumes "f \<le> l" and "n \<noteq> 0"
  shows "\<exists>tbs. to_block_numbers f l n = Inr tbs \<and>
           concat (map blocks_of (block_ranges f tbs)) = [f..l] \<and>
           (\<forall>r \<in> set (block_ranges f tbs). fst r \<le> snd r) \<and> last tbs = l \<and> tbs \<noteq> []"
proof (cases "0 < n")
  case True
  with assms block_ranges_range_up [of n f "f + n" l] show ?thesis
    by (simp add: to_block_numbers_def py_range_def)
next
  case False
  with assms have "n < 0" by simp
  with assms have "range_down (f + n) l n = []"
    by (subst range_down.simps) simp
  with assms \<open>n < 0\<close> show ?thesis
    by (simp add: to_block_numbers_def py_range_def blocks_of_pair)
qed

lemma read_event_logs_chunks:
  assumes "\<forall>a b. get_logs env a b = Inr (concat (map chain [a..b]))"
    and "\<forall>r \<in> set (block_ranges f tbs). fst r \<le> snd r"
  shows "read_event_logs env f acc tbs =
           (Inr (acc @ concat (map chain (concat (map blocks_of (block_ranges f tbs))))),
            if tbs = [] then f else last tbs + 1)"
  using assms(2)
proof (induction tbs arbitrary: f acc)
  case Nil
  then show ?case by simp
next
  case (Cons t tbs)
  then show ?case using assms(1) by (simp add: blocks_of_pair)
qed

text \<open>
  C5. Let the chain have the height \<open>latest_block_number\<close>, let
  \<open>from_block_number \<le> latest_block_number\<close>, let the configured number of blocks of a
  chunk be any integer but zero (for which \<^verbatim>\<open>range\<close> raises), and let \<^verbatim>\<open>get_logs\<close>
  return, for a range of blocks, the events of these blocks in the order of the chain.
  Then the upper block numbers are computed, the ranges they give are not empty and
  their blocks, one range after the other, are exactly the blocks from
  \<open>from_block_number\<close> to \<open>latest_block_number\<close> in increasing order, each once; the
  events collected range by range are the events of the single fetch of the whole range;
  and \<^verbatim>\<open>read_outgoing_transfers_from_block\<close> returns the transfers of these events.
\<close>

theorem chunks_cover_block_range:
  assumes "create_node_connections env = Inr u"
    and "get_minimum_result (get_block_number env) = Inr latest_block_number"
    and "from_block_number \<le> latest_block_number"
    and "outgoing_transfers_number_blocks (config env) \<noteq> 0"
    and "\<forall>a b. get_logs env a b = Inr (concat (map chain [a..b]))"
  shows "\<exists>to_blocks.
           to_block_numbers from_block_number latest_block_number
             (outgoing_transfers_number_blocks (config env)) = Inr to_blocks \<and>
           concat (map blocks_of (block_ranges from_block_number to_blocks)) =
             [from_block_number..latest_block_number] \<and>
           (\<forall>r \<in> set (block_ranges from_block_number to_blocks). fst r \<le> snd r) \<and>
           read_event_logs env from_block_number [] to_blocks =
             (get_logs env from_block_number latest_block_number, latest_block_number + 1) \<and>
           read_outgoing_transfers_from_block env from_block_number =
             (case bind_result (hub_contract_address_get env)
                     (create_outgoing_transfers env
                        (concat (map chain [from_block_number..latest_block_number]))) of
                Inl e \<Rightarrow>
                  Inl (reraise_or_wrap ''unable to read outgoing transfers from a starting block''
                         [(''from_block_number'', IntParam (latest_block_number + 1))] e)
              | Inr outgoing_transfers \<Rightarrow> Inr (outgoing_transfers, latest_block_number))"
proof -
  from to_block_numbers_cover [OF assms(3,4)] obtain tbs where
    tbs: "to_block_numbers from_block_number latest_block_number
            (outgoing_transfers_number_blocks (config env)) = Inr tbs"
    and cover: "concat (map blocks_of (block_ranges from_block_number tbs)) =
             [from_block_number..latest_block_number]"
    and nonempty: "\<forall>r \<in> set (block_ranges from_block_number tbs). fst r \<le> snd r"
    and last: "last tbs = latest_block_number" "tbs \<noteq> []"
    by blast
  from read_event_logs_chunks [OF assms(5) nonempty, of "[]"] cover last
  have logs: "read_event_logs env from_block_number [] tbs =
      (Inr (concat (map chain [from_block_number..latest_block_number])),
       latest_block_number + 1)"
    by simp
  with assms(5) have single: "read_event_logs env from_block_number [] tbs =
      (get_logs env from_block_number latest_block_number, latest_block_number + 1)"
    by simp
  have "read_outgoing_transfers_from_block env from_block_number =
      (case bind_result (hub_contract_address_get env)
              (create_outgoing_transfers env
                 (concat (map chain [from_block_number..latest_block_number]))) of
         Inl e \<Rightarrow>
           Inl (reraise_or_wrap ''unable to read outgoing transfers from a starting block''
                  [(''from_block_number'', IntParam (latest_block_number + 1))] e)
       | Inr outgoing_transfers \<Rightarrow> Inr (outgoing_transfers, latest_block_number))"
    using assms(1,2,3) tbs logs
    by (cases "hub_contract_address_get env")
      (simp_all add: read_outgoing_transfers_from_block_def
        read_outgoing_transfers_from_block_body_def split: sum.splits)
  with tbs cover nonempty single show ?thesis by blast
qed

lemma example_to_block_numbers: "to_block_numbers 0 5 2 = Inr [2, 4, 5]"
  by (simp add: to_block_numbers_def py_range_def range_up.simps)

theorem chunks_cover_block_range_witness:
  "create_node_connections example_env = Inr () \<and>
   get_minimum_result (get_block_number example_env) = Inr 5 \<and>
   (0::int) \<le> 5 \<and> outgoing_transfers_number_blocks (config example_env) = 2 \<and>
   (\<forall>a b. get_logs example_env a b = Inr (concat (map example_chain [a..b]))) \<and>
   to_block_numbers 0 5 2 = Inr [2, 4, 5] \<and>
   block_ranges 0 [2, 4, 5] = [(0, 2), (3, 4), (5, 5)] \<and>
   read_event_logs example_env 0 [] [2, 4, 5] = (get_logs example_env 0 5, 6)"
proof -
  have conn: "create_node_connections example_env = Inr ()"
    by (simp add: example_env_nodes)
  have height: "get_minimum_result (get_block_number example_env) = Inr 5"
    by (simp add: example_env_nodes get_minimum_result_def)
  have a: "(0::int) \<le> 5"
    by simp
  have n: "outgoing_transfers_number_blocks (config example_env) = 2"
    by (simp add: example_env_def example_config_def)
  then have b: "outgoing_transfers_number_blocks (config example_env) \<noteq> 0"
    by simp
  have c: "\<forall>a b. get_logs example_env a b = Inr (concat (map example_chain [a..b]))"
    by (simp add: example_env_def)
  from chunks_cover_block_range [OF conn height a b c] example_to_block_numbers n
  have "read_event_logs example_env 0 [] [2, 4, 5] = (get_logs example_env 0 5, 6)"
    by auto
  with conn height a n c example_to_block_numbers show ?thesis by simp
qed

subsection \<open>The propagation of errors\<close>

text \<open>
  C8 (as stated) fails for \<^verbatim>\<open>start_transfer_to_submission\<close>. When the contract rejects
  the verification call with the forwarder-mismatch message, the statements inside
  \<^verbatim>\<open>try\<close> raise the typed error, which is no node-inconsistency error; the operation
  lets it pass unchanged and does not wrap it into the error that carries the
  description of the operation and the request.
\<close>

theorem typed_rejection_not_wrapped:
  "fst (start_transfer_to_submission_body
      (example_env\<lparr>verifyTransferTo :=
         (\<lambda>r a s. Inl (ContractLogicError NON_MATCHING_FORWARDER_ERROR))\<rparr>)
      Map.empty example_request) =
     Inl (NonMatchingForwarderError
        [(''source_blockchain'', BlockchainParam (Blockchain 1)),
         (''source_transaction_id'', StrParam ''0xtx''),
         (''destination_token_address'', StrParam ''0xdt'')]) \<and>
   fst (start_transfer_to_submission
      (example_env\<lparr>verifyTransferTo :=
         (\<lambda>r a s. Inl (ContractLogicError NON_MATCHING_FORWARDER_ERROR))\<rparr>)
      Map.empty example_request) =
     Inl (NonMatchingForwarderError
        [(''source_blockchain'', BlockchainParam (Blockchain 1)),
         (''source_transaction_id'', StrParam ''0xtx''),
         (''destination_token_address'', StrParam ''0xdt'')]) \<and>
   fst (start_transfer_to_submission
      (example_env\<lparr>verifyTransferTo :=
         (\<lambda>r a s. Inl (ContractLogicError NON_MATCHING_FORWARDER_ERROR))\<rparr>)
      Map.empty example_request) \<noteq>
     spec_propagation ''unable to start a transferTo submission''
       [(''request'', SubmissionRequestParam example_request)]
       (fst (start_transfer_to_submission_body
          (example_env\<lparr>verifyTransferTo :=
             (\<lambda>r a s. Inl (ContractLogicError NON_MATCHING_FORWARDER_ERROR))\<rparr>)
          Map.empty example_request))"
proof -
  let ?env = "example_env\<lparr>verifyTransferTo :=
         (\<lambda>r a s. Inl (ContractLogicError NON_MATCHING_FORWARDER_ERROR))\<rparr>"
  let ?e = "NonMatchingForwarderError
        [(''source_blockchain'', BlockchainParam (Blockchain 1)),
         (''source_transaction_id'', StrParam ''0xtx''),
         (''destination_token_address'', StrParam ''0xdt'')]"
  have self: "is_substring NON_MATCHING_FORWARDER_ERROR NON_MATCHING_FORWARDER_ERROR"
    by (simp add: NON_MATCHING_FORWARDER_ERROR_def)
  have body: "start_transfer_to_submission_body ?env Map.empty example_request =
      (Inl ?e, Map.empty)"
    using example_signature [of "\<lambda>r a s. Inl (ContractLogicError NON_MATCHING_FORWARDER_ERROR)"]
    by (simp add: start_transfer_to_submission_body_def example_env_def example_request_def
        example_transfer_def example_config_def verify_transfer_to_request_def self
        create_non_matching_forwarder_error_def Let_def)
  have dest: "eventual_destination_blockchain ?env (incoming_transfer example_request) =
      get_blockchain ?env"
    by (simp add: example_env_def example_request_def example_transfer_def get_blockchain_def)
  from body dest have "start_transfer_to_submission ?env Map.empty example_request =
      (Inl ?e, Map.empty)"
    by (simp add: start_transfer_to_submission_def reraise_client_error_or_wrap_def)
  with body show ?thesis by simp
qed

lemma try_except_spec_propagation:
  "try_except message params body = spec_propagation message params body"
proof (cases body)
  case (Inl e)
  then show ?thesis
    by (cases e) (simp_all add: try_except_def reraise_or_wrap_def create_error_def)
next
  case (Inr v)
  then show ?thesis by (simp add: try_except_def)
qed

lemma reraise_or_wrap_spec_propagation:
  "Inl (reraise_or_wrap message params e) = spec_propagation message params (Inl e)"
  by (cases e) (simp_all add: reraise_or_wrap_def create_error_def)

lemma reraise_client_error_or_wrap_spec_propagation:
  "Inl (reraise_client_error_or_wrap message params e) =
     spec_propagation_keeping_client_errors message params (Inl e)"
  by (cases e)
    (simp_all add: reraise_client_error_or_wrap_def create_error_def
      spec_propagation_keeping_client_errors_def)

text \<open>
  C8 (as amended). In each of the seven read operations of the client a
  node-inconsistency error raised inside the operation propagates unchanged, and any
  other exception is wrapped into the single domain error carrying the description of the
  operation and its parameters (for the read from a block: a parameter
  \<^verbatim>\<open>from_block_number\<close>). \<^verbatim>\<open>start_transfer_to_submission\<close> raises the domain error itself
  when the transfer is not bound for the client's blockchain; otherwise a
  node-inconsistency error and every error of the client's own error class, the typed
  rejections among them, propagate unchanged, and any other exception is wrapped into the
  domain error carrying the description of the operation and the request.
\<close>

theorem error_propagation:
  "is_token_active env token_address =
     spec_propagation ''unable to determine if a token is active''
       [(''token_address'', StrParam token_address)]
       (is_token_active_body env token_address) \<and>
   is_valid_validator_nonce env nonce =
     spec_propagation ''unable to determine if a validator node nonce is valid''
       [(''nonce'', IntParam nonce)]
       (is_valid_validator_nonce_body env nonce) \<and>
   read_external_token_address env token_address external_blockchain =
     spec_propagation ''unable to read an external token address''
       [(''token_address'', StrParam token_address),
        (''external_blockchain'', BlockchainParam external_blockchain)]
       (read_external_token_address_body env token_address external_blockchain) \<and>
   (\<exists>n. read_outgoing_transfers_from_block env from_block_number =
     spec_propagation ''unable to read outgoing transfers from a starting block''
       [(''from_block_number'', IntParam n)]
       (fst (read_outgoing_transfers_from_block_body env from_block_number))) \<and>
   read_outgoing_transfers_in_transaction env transaction_id hub_address =
     spec_propagation ''unable to read outgoing transfers in a transaction''
       [(''transaction_id'', StrParam transaction_id), (''hub_address'', StrParam hub_address)]
       (read_outgoing_transfers_in_transaction_body env transaction_id hub_address) \<and>
   read_token_decimals env token_address =
     spec_propagation ''unable to read the decimals of a token''
       [(''token_address'', StrParam token_address)]
       (read_token_decimals_body env token_address) \<and>
   read_validator_node_addresses env =
     spec_propagation ''unable to read the validator node addresses'' []
       (read_validator_node_addresses_body env) \<and>
   fst (start_transfer_to_submission env db request) =
     (if eventual_destination_blockchain env (incoming_transfer request) = get_blockchain env
      then spec_propagation_keeping_client_errors ''unable to start a transferTo submission''
             [(''request'', SubmissionRequestParam request)]
             (fst (start_transfer_to_submission_body env db request))
      else Inl (EthereumClientError
             (''eventual destination blockchain of incoming transfer must be '' @
              blockchain_name env)
             [(''request'', SubmissionRequestParam request)]))"
proof -
  have from_block: "\<exists>n. read_outgoing_transfers_from_block env from_block_number =
     spec_propagation ''unable to read outgoing transfers from a starting block''
       [(''from_block_number'', IntParam n)]
       (fst (read_outgoing_transfers_from_block_body env from_block_number))"
  proof (cases "read_outgoing_transfers_from_block_body env from_block_number")
    case (Pair outcome n)
    then show ?thesis
      by (cases outcome)
        (auto simp add: read_outgoing_transfers_from_block_def
          reraise_or_wrap_spec_propagation)
  qed
  have submission: "fst (start_transfer_to_submission env db request) =
     (if eventual_destination_blockchain env (incoming_transfer request) = get_blockchain env
      then spec_propagation_keeping_client_errors ''unable to start a transferTo submission''
             [(''request'', SubmissionRequestParam request)]
             (fst (start_transfer_to_submission_body env db request))
      else Inl (EthereumClientError
             (''eventual destination blockchain of incoming transfer must be '' @
              blockchain_name env)
             [(''request'', SubmissionRequestParam request)]))"
  proof (cases "start_transfer_to_submission_body env db request")
    case (Pair outcome db')
    then show ?thesis
      by (cases outcome)
        (simp_all add: start_transfer_to_submission_def create_error_def
          reraise_client_error_or_wrap_spec_propagation
          spec_propagation_keeping_client_errors_def)
  qed
  from from_block submission show ?thesis
    unfolding is_token_active_def is_valid_validator_nonce_def read_external_token_address_def
      read_outgoing_transfers_in_transaction_def read_token_decimals_def
      read_validator_node_addresses_def try_except_spec_propagation
    by simp
qed

end
